theory Spec2Isabelle
  imports Main "HOL-Library.AList" "HOL-Library.Sublist"
begin

section \<open>Python values and the string operations the module uses\<close>

text \<open>
  The values a caller passes in: None, booleans, integers, byte strings, and lists or
  tuples of those. Floats, unicode strings, nested containers and arbitrary objects are
  outside the model.
\<close>

datatype scalar = PNone | PBool bool | PInt int | PStr string

datatype pyval = Sc scalar | PList "scalar list" | PTuple "scalar list"

text \<open>
  \<open>S_ERROR\<close> and \<open>DErrno\<close> are defined outside the module: the error value
  \<open>S_ERROR( DErrno.EMYSQL, msg )\<close> is kept as its error number and the message it was
  given. \<open>Raised msg\<close> is an exception that leaves the function; the texts of the
  exceptions the interpreter raises itself are abbreviated.
\<close>

datatype errno = EMYSQL

datatype error = S_ERROR errno string | Raised string

fun truthy :: "pyval \<Rightarrow> bool" where
  "truthy (Sc PNone) = False"
| "truthy (Sc (PBool b)) = b"
| "truthy (Sc (PInt i)) = (i \<noteq> 0)"
| "truthy (Sc (PStr s)) = (s \<noteq> [])"
| "truthy (PList xs) = (xs \<noteq> [])"
| "truthy (PTuple xs) = (xs \<noteq> [])"

fun str_nat :: "nat \<Rightarrow> string" where
  "str_nat n = (if n < 10 then [''0123456789'' ! n]
                else str_nat (n div 10) @ [''0123456789'' ! (n mod 10)])"

declare str_nat.simps [simp del]

definition str_int :: "int \<Rightarrow> string" where
  "str_int i = (if i < 0 then ''-'' @ str_nat (nat (- i)) else str_nat (nat i))"

text \<open>\<open>str( v )\<close> on a scalar.\<close>

fun str :: "scalar \<Rightarrow> string" where
  "str PNone = ''None''"
| "str (PBool b) = (if b then ''True'' else ''False'')"
| "str (PInt i) = str_int i"
| "str (PStr s) = s"

fun join :: "string \<Rightarrow> string list \<Rightarrow> string" where
  "join sep [] = []"
| "join sep [x] = x"
| "join sep (x # y # ys) = x @ sep @ join sep (y # ys)"

definition isspace :: "char \<Rightarrow> bool" where
  "isspace c = (c \<in> set [CHR '' '', CHR 0x09, CHR 0x0A, CHR 0x0B, CHR 0x0C, CHR 0x0D])"

definition strip :: "string \<Rightarrow> string" where
  "strip s = rev (dropWhile isspace (rev (dropWhile isspace s)))"

definition startswith :: "string \<Rightarrow> string \<Rightarrow> bool" where
  "startswith s p = (take (length p) s = p)"

definition endswith :: "string \<Rightarrow> string \<Rightarrow> bool" where
  "endswith s p = (length p \<le> length s \<and> drop (length s - length p) s = p)"

text \<open>\<open>s.replace( old, new )\<close> for a non-empty \<open>old\<close> (the only use in the module).\<close>

fun replace :: "string \<Rightarrow> string \<Rightarrow> string \<Rightarrow> string" where
  "replace old new [] = []"
| "replace old new (c # cs) =
     (if old \<noteq> [] \<and> take (length old) (c # cs) = old
      then new @ replace old new (drop (length old) (c # cs))
      else c # replace old new cs)"

text \<open>\<open>s.split( sep )\<close> for a one-character separator.\<close>

fun split :: "char \<Rightarrow> string \<Rightarrow> string list" where
  "split sep [] = [[]]"
| "split sep (c # cs) =
     (if c = sep then [] # split sep cs
      else (case split sep cs of [] \<Rightarrow> [[c]] | p # ps \<Rightarrow> (c # p) # ps))"

definition upper_char :: "char \<Rightarrow> char" where
  "upper_char c =
     (case map_of (zip ''abcdefghijklmnopqrstuvwxyz'' ''ABCDEFGHIJKLMNOPQRSTUVWXYZ'') c of
        None \<Rightarrow> c | Some u \<Rightarrow> u)"

definition upper :: "string \<Rightarrow> string" where
  "upper s = map upper_char s"

definition isalnum :: "string \<Rightarrow> bool" where
  "isalnum s = (s \<noteq> [] \<and>
     (\<forall>c \<in> set s. c \<in> set ''abcdefghijklmnopqrstuvwxyzABCDEFGHIJKLMNOPQRSTUVWXYZ0123456789''))"

section \<open>The database driver and the world\<close>

text \<open>
  A connection is a handle. Every call into the driver (MySQLdb), every \<open>time.sleep\<close> and
  every entry of \<open>__getWithRetry\<close> is recorded in a trace, most recent event first. The
  driver, the clock and the liveness of threads are parameters: their answers are
  functions of the trace so far. \<open>Attempt total left\<close> marks a call of
  \<open>__getWithRetry( dbName, total, left )\<close>; it is an observation point, not an effect.
\<close>

type_synonym conn = nat

type_synonym thid = nat

datatype event =
    Connect conn
  | Execute conn string
  | Commit conn
  | Ping conn
  | SelectDb conn string
  | Close conn
  | Sleep int
  | Attempt int int

datatype drv_error = MySQLError int string

record exec_result =
  rowcount :: nat
  fetched :: "scalar list list"
  lastrowid :: nat

record env =
  drv_connect :: "event list \<Rightarrow> drv_error option"
  drv_execute :: "event list \<Rightarrow> conn \<Rightarrow> string \<Rightarrow> drv_error + exec_result"
  drv_commit :: "event list \<Rightarrow> conn \<Rightarrow> drv_error option"
  drv_ping :: "event list \<Rightarrow> conn \<Rightarrow> bool"
  drv_select_db :: "event list \<Rightarrow> conn \<Rightarrow> string \<Rightarrow> drv_error option"
  drv_escape_string :: "string \<Rightarrow> string"
  time_time :: "event list \<Rightarrow> int"
  isAlive :: "event list \<Rightarrow> thid \<Rightarrow> bool"
  fromString :: "string \<Rightarrow> bool"
  recursionLimit :: nat

text \<open>
  The fields of a \<open>ConnectionPool\<close> object (host, user, password and port only feed
  \<open>MySQLdb.connect\<close> and are left to the driver), together with the trace. \<open>spares\<close> is
  the deque, its right end last; \<open>assigned\<close> is the dictionary from thread to
  \<open>[ conn, dbName, lastUse ]\<close>, in iteration order.
\<close>

record world =
  spares :: "(conn \<times> string) list"
  maxSpares :: nat
  lastClean :: int
  assigned :: "(thid \<times> conn \<times> string \<times> int) list"
  graceTime :: int
  trace :: "event list"

definition MAXCONNECTRETRY :: int where
  "MAXCONNECTRETRY = 10"

definition log_event :: "event \<Rightarrow> world \<Rightarrow> world" where
  "log_event e w = w\<lparr>trace := e # trace w\<rparr>"

text \<open>\<open>str( excp )\<close> of a driver error with arguments \<open>( code, message )\<close>.\<close>

fun str_excp :: "drv_error \<Rightarrow> string" where
  "str_excp (MySQLError code msg) =
     ''('' @ str_int code @ '', '' @ [CHR 0x27] @ msg @ [CHR 0x27] @ '')''"

section \<open>ConnectionPool\<close>

definition pool_init :: "int \<Rightarrow> event list \<Rightarrow> world" where
  "pool_init grace tr =
     \<lparr>spares = [], maxSpares = 10, lastClean = 0, assigned = [], graceTime = grace, trace = tr\<rparr>"

text \<open>\<open>__execute\<close>: run the command on a cursor of the connection, then commit.\<close>

definition pool_execute :: "env \<Rightarrow> conn \<Rightarrow> string \<Rightarrow> world \<Rightarrow> (drv_error + nat) \<times> world" where
  "pool_execute env c cmd w =
     (case drv_execute env (trace w) c cmd of
        Inl e \<Rightarrow> (Inl e, log_event (Execute c cmd) w)
      | Inr r \<Rightarrow>
          (let w1 = log_event (Execute c cmd) w in
           case drv_commit env (trace w1) c of
             Some e \<Rightarrow> (Inl e, log_event (Commit c) w1)
           | None \<Rightarrow> (Inr (rowcount r), log_event (Commit c) w1)))"

text \<open>\<open>__newConn\<close>: the new connection's handle is the length of the trace at the
  time of the connect, so handles are never reused.\<close>

definition pool_newConn :: "env \<Rightarrow> world \<Rightarrow> (drv_error + conn) \<times> world" where
  "pool_newConn env w =
     (let c = length (trace w) in
      case drv_connect env (trace w) of
        Some e \<Rightarrow> (Inl e, log_event (Connect c) w)
      | None \<Rightarrow>
          (case pool_execute env c ''SET AUTOCOMMIT=1'' (log_event (Connect c) w) of
             (Inl e, w1) \<Rightarrow> (Inl e, w1)
           | (Inr r, w1) \<Rightarrow> (Inr c, w1)))"

definition pool_ping :: "env \<Rightarrow> conn \<Rightarrow> world \<Rightarrow> bool \<times> world" where
  "pool_ping env c w = (drv_ping env (trace w) c, log_event (Ping c) w)"

definition pool_innerGet :: "env \<Rightarrow> thid \<Rightarrow> world \<Rightarrow> (drv_error + conn \<times> string \<times> thid) \<times> world" where
  "pool_innerGet env me w =
     (let now = time_time env (trace w) in
      case map_of (assigned w) me of
        Some (c, name, t) \<Rightarrow>
          (Inr (c, name, me), w\<lparr>assigned := AList.update me (c, name, now) (assigned w)\<rparr>)
      | None \<Rightarrow>
          (if spares w \<noteq> []
           then (let (c, name) = last (spares w);
                     w1 = w\<lparr>spares := butlast (spares w)\<rparr>
                 in (Inr (c, name, me), w1\<lparr>assigned := AList.update me (c, name, now) (assigned w1)\<rparr>))
           else (case pool_newConn env w of
                   (Inl e, w1) \<Rightarrow> (Inl e, w1)
                 | (Inr c, w1) \<Rightarrow>
                     (Inr (c, [], me),
                      w1\<lparr>assigned := AList.update me (c, [], now) (assigned w1)\<rparr>))))"

text \<open>\<open>__pop\<close>: the assignment of the thread is removed; its connection is queued as a
  spare when the queue is below \<open>maxSpares\<close> and closed otherwise. A thread with no
  assignment is the caught KeyError.\<close>

definition pool_pop :: "thid \<Rightarrow> world \<Rightarrow> world" where
  "pool_pop t w =
     (case map_of (assigned w) t of
        None \<Rightarrow> w
      | Some (c, name, lastUse) \<Rightarrow>
          (let w1 = w\<lparr>assigned := AList.delete t (assigned w)\<rparr> in
           if length (spares w1) < maxSpares w1
           then w1\<lparr>spares := spares w1 @ [(c, name)]\<rparr>
           else log_event (Close c) w1))"

fun clean_loop :: "env \<Rightarrow> int \<Rightarrow> thid list \<Rightarrow> world \<Rightarrow> world" where
  "clean_loop env now [] w = w"
| "clean_loop env now (t # ts) w =
     (let w1 = (if \<not> isAlive env (trace w) t then pool_pop t w else w) in
      case map_of (assigned w1) t of
        None \<Rightarrow> clean_loop env now ts w1
      | Some (c, name, lastUse) \<Rightarrow>
          clean_loop env now ts (if now - lastUse > graceTime w1 then pool_pop t w1 else w1))"

text \<open>\<open>clean( now = False )\<close>: a missing or zero \<open>now\<close> is replaced by the clock.\<close>

definition pool_clean :: "env \<Rightarrow> int option \<Rightarrow> world \<Rightarrow> world" where
  "pool_clean env now w =
     (let now1 = (case now of None \<Rightarrow> time_time env (trace w)
                   | Some n \<Rightarrow> if n = 0 then time_time env (trace w) else n);
          w1 = w\<lparr>lastClean := now1\<rparr>
      in clean_loop env now1 (map fst (assigned w1)) w1)"

definition pool_select_db :: "env \<Rightarrow> conn \<Rightarrow> string \<Rightarrow> world \<Rightarrow> drv_error option \<times> world" where
  "pool_select_db env c dbName w = (drv_select_db env (trace w) c dbName, log_event (SelectDb c dbName) w)"

definition recursion_msg :: string where
  "recursion_msg = ''maximum recursion depth exceeded''"

text \<open>
  \<open>__getWithRetry\<close> calls itself; the first argument after the environment is the number
  of nested calls the interpreter still allows, and a call beyond it raises.
\<close>

fun pool_getWithRetry ::
  "env \<Rightarrow> nat \<Rightarrow> string \<Rightarrow> int \<Rightarrow> int \<Rightarrow> thid \<Rightarrow> world \<Rightarrow> (error + conn) \<times> world" where
  "pool_getWithRetry env 0 dbName totalRetries retriesLeft me w = (Inl (Raised recursion_msg), w)"
| "pool_getWithRetry env (Suc depth) dbName totalRetries retriesLeft me w =
     (let sleepTime = 5 * (totalRetries - retriesLeft);
          w0 = log_event (Attempt totalRetries retriesLeft) w;
          w1 = (if sleepTime > 0 then log_event (Sleep sleepTime) w0 else w0)
      in case pool_innerGet env me w1 of
           (Inl excp, w2) \<Rightarrow>
             (if retriesLeft \<ge> 0
              then pool_getWithRetry env depth dbName totalRetries (retriesLeft - 1) me w2
              else (Inl (S_ERROR EMYSQL (''Could not connect: '' @ str_excp excp)), w2))
         | (Inr (c, lastName, thid), w2) \<Rightarrow>
             (case pool_ping env c w2 of
                (False, w3) \<Rightarrow>
                  (let w4 = w3\<lparr>assigned := AList.delete thid (assigned w3)\<rparr> in
                   if retriesLeft \<ge> 0
                   then pool_getWithRetry env depth dbName totalRetries retriesLeft me w4
                   else (Inl (S_ERROR EMYSQL ''Could not connect''), w4))
              | (True, w3) \<Rightarrow>
                  (if lastName \<noteq> dbName
                   then (case pool_select_db env c dbName w3 of
                           (Some excp, w4) \<Rightarrow>
                             (if retriesLeft \<ge> 0
                              then pool_getWithRetry env depth dbName totalRetries (retriesLeft - 1) me w4
                              else (Inl (S_ERROR EMYSQL (''Could not select db '' @ dbName @ '': ''
                                                          @ str_excp excp)), w4))
                         | (None, w4) \<Rightarrow>
                             (case map_of (assigned w4) thid of
                                None \<Rightarrow>
                                  (if retriesLeft \<ge> 0
                                   then pool_getWithRetry env depth dbName totalRetries (retriesLeft - 1) me w4
                                   else (Inl (S_ERROR EMYSQL ''Could not connect''), w4))
                              | Some (c1, name1, lastUse) \<Rightarrow>
                                  (Inr c, w4\<lparr>assigned :=
                                             AList.update thid (c1, dbName, lastUse) (assigned w4)\<rparr>)))
                   else (Inr c, w3))))"

definition pool_get :: "env \<Rightarrow> string \<Rightarrow> int \<Rightarrow> thid \<Rightarrow> world \<Rightarrow> (error + conn) \<times> world" where
  "pool_get env dbName retries me w =
     (let retries1 = max 0 (min MAXCONNECTRETRY retries);
          w1 = pool_clean env None w
      in pool_getWithRetry env (recursionLimit env) dbName retries1 retries1 me w1)"

text \<open>\<open>transactionStart\<close>, \<open>transactionCommit\<close> and \<open>transactionRollback\<close> differ in the
  statement and in the text of the error.\<close>

definition pool_transaction ::
  "env \<Rightarrow> string \<Rightarrow> string \<Rightarrow> string \<Rightarrow> thid \<Rightarrow> world \<Rightarrow> (error + nat) \<times> world" where
  "pool_transaction env stmt failure dbName me w =
     (case pool_get env dbName 10 me w of
        (Inl e, w1) \<Rightarrow> (Inl e, w1)
      | (Inr c, w1) \<Rightarrow>
          (case pool_execute env c stmt w1 of
             (Inl excp, w2) \<Rightarrow> (Inl (S_ERROR EMYSQL (failure @ str_excp excp)), w2)
           | (Inr r, w2) \<Rightarrow> (Inr r, w2)))"

definition pool_transactionStart :: "env \<Rightarrow> string \<Rightarrow> thid \<Rightarrow> world \<Rightarrow> (error + nat) \<times> world" where
  "pool_transactionStart env =
     pool_transaction env ''START TRANSACTION WITH CONSISTENT SNAPSHOT'' ''Could not begin transaction: ''"

definition pool_transactionCommit :: "env \<Rightarrow> string \<Rightarrow> thid \<Rightarrow> world \<Rightarrow> (error + nat) \<times> world" where
  "pool_transactionCommit env = pool_transaction env ''COMMIT'' ''Could not commit transaction: ''"

definition pool_transactionRollback :: "env \<Rightarrow> string \<Rightarrow> thid \<Rightarrow> world \<Rightarrow> (error + nat) \<times> world" where
  "pool_transactionRollback env = pool_transaction env ''ROLLBACK'' ''Could not rollback transaction: ''"


text \<open>One call of \<open>__getWithRetry\<close> up to its return or its recursive call: \<open>Inl r\<close> is
  the value returned, \<open>Inr left\<close> the \<open>retriesLeft\<close> of the recursive call.\<close>

definition retry_step ::
  "env \<Rightarrow> string \<Rightarrow> int \<Rightarrow> int \<Rightarrow> thid \<Rightarrow> world \<Rightarrow> ((error + conn) + int) \<times> world" where
  "retry_step env dbName totalRetries retriesLeft me w =
     (let sleepTime = 5 * (totalRetries - retriesLeft);
          w0 = log_event (Attempt totalRetries retriesLeft) w;
          w1 = (if sleepTime > 0 then log_event (Sleep sleepTime) w0 else w0)
      in case pool_innerGet env me w1 of
           (Inl excp, w2) \<Rightarrow>
             (if retriesLeft \<ge> 0 then (Inr (retriesLeft - 1), w2)
              else (Inl (Inl (S_ERROR EMYSQL (''Could not connect: '' @ str_excp excp))), w2))
         | (Inr (c, lastName, thid), w2) \<Rightarrow>
             (case pool_ping env c w2 of
                (False, w3) \<Rightarrow>
                  (let w4 = w3\<lparr>assigned := AList.delete thid (assigned w3)\<rparr> in
                   if retriesLeft \<ge> 0 then (Inr retriesLeft, w4)
                   else (Inl (Inl (S_ERROR EMYSQL ''Could not connect'')), w4))
              | (True, w3) \<Rightarrow>
                  (if lastName \<noteq> dbName
                   then (case pool_select_db env c dbName w3 of
                           (Some excp, w4) \<Rightarrow>
                             (if retriesLeft \<ge> 0 then (Inr (retriesLeft - 1), w4)
                              else (Inl (Inl (S_ERROR EMYSQL (''Could not select db '' @ dbName @ '': ''
                                                          @ str_excp excp))), w4))
                         | (None, w4) \<Rightarrow>
                             (case map_of (assigned w4) thid of
                                None \<Rightarrow>
                                  (if retriesLeft \<ge> 0 then (Inr (retriesLeft - 1), w4)
                                   else (Inl (Inl (S_ERROR EMYSQL ''Could not connect'')), w4))
                              | Some (c1, name1, lastUse) \<Rightarrow>
                                  (Inl (Inr c), w4\<lparr>assigned :=
                                             AList.update thid (c1, dbName, lastUse) (assigned w4)\<rparr>)))
                   else (Inl (Inr c), w3))))"

section \<open>Predicates and sample environments of the properties\<close>

text \<open>The spare queue is within its bound.\<close>

definition spare_bound :: "world \<Rightarrow> bool" where
  "spare_bound w = (length (spares w) \<le> maxSpares w)"

definition is_Attempt :: "event \<Rightarrow> bool" where
  "is_Attempt e = (case e of Attempt t l \<Rightarrow> True | _ \<Rightarrow> False)"

definition attempts_of :: "event list \<Rightarrow> event list" where
  "attempts_of tr = filter is_Attempt tr"

text \<open>A server that accepts every connection and statement and never answers a ping;
  \<open>n\<close> is the interpreter's recursion limit.\<close>

definition env_dead :: "nat \<Rightarrow> env" where
  "env_dead n =
     \<lparr>drv_connect = (\<lambda>tr. None),
      drv_execute = (\<lambda>tr c cmd. Inr \<lparr>rowcount = 0, fetched = [], lastrowid = 0\<rparr>),
      drv_commit = (\<lambda>tr c. None),
      drv_ping = (\<lambda>tr c. False),
      drv_select_db = (\<lambda>tr c db. None),
      drv_escape_string = (\<lambda>s. s),
      time_time = (\<lambda>tr. int (length tr)),
      isAlive = (\<lambda>tr t. True),
      fromString = (\<lambda>s. False),
      recursionLimit = n\<rparr>"

text \<open>Two pools in which thread 1 holds connection 0: one with an empty spare queue, one
  with a full one.\<close>

definition w_one :: world where
  "w_one = (pool_init 600 [])\<lparr>assigned := [(1, 0, ''db'', 0)]\<rparr>"

definition w_full :: world where
  "w_full = (pool_init 600 [])\<lparr>spares := replicate 10 (7, ''x''), assigned := [(1, 0, ''db'', 0)]\<rparr>"

text \<open>
  The sleeps of a trace (most recent event first) follow the backoff rule: every call of
  \<open>__getWithRetry( dbName, t, l )\<close> is followed by one sleep of \<open>5 * (t - l)\<close> seconds, or
  by none when that is 0, and there is no other sleep.
\<close>

fun backoff_ok :: "event list \<Rightarrow> bool" where
  "backoff_ok [] = True"
| "backoff_ok (Sleep s # Attempt t l # es) = (s = 5 * (t - l) \<and> backoff_ok es)"
| "backoff_ok (Sleep s # es) = False"
| "backoff_ok (Attempt t l # es) = (5 * (t - l) = 0 \<and> backoff_ok es)"
| "backoff_ok (e # es) = backoff_ok es"

text \<open>A server that refuses every connection.\<close>

definition env_down :: "nat \<Rightarrow> env" where
  "env_down n = (env_dead n)\<lparr>drv_connect := (\<lambda>tr. Some (MySQLError 2003 ''down''))\<rparr>"

section \<open>The MySQL object: connections, escaping, queries\<close>

text \<open>The fields of a \<open>MySQL\<close> object that its methods read.\<close>

record mysql =
  self_dbName :: string
  self_initialized :: bool

text \<open>\<open>__getConnection\<close> never reads its arguments \<open>conn\<close> and \<open>trial\<close>, so the model has
  no connection argument anywhere.\<close>

definition getConnection :: "env \<Rightarrow> mysql \<Rightarrow> thid \<Rightarrow> world \<Rightarrow> (error + conn) \<times> world" where
  "getConnection env self me w =
     (if \<not> self_initialized self then (Inl (S_ERROR EMYSQL ''DB not properly initialized''), w)
      else pool_get env (self_dbName self) 10 me w)"

text \<open>\<open>_except\<close> for a driver error, and for any other exception with text \<open>msg\<close>.\<close>

fun except_mysql :: "drv_error \<Rightarrow> string \<Rightarrow> error" where
  "except_mysql (MySQLError code msg) err =
     S_ERROR EMYSQL (err @ '': ( '' @ str_int code @ '': '' @ msg @ '' )'')"

definition except_other :: "string \<Rightarrow> string \<Rightarrow> error" where
  "except_other msg err = S_ERROR EMYSQL (err @ '': ('' @ msg @ '')'')"

text \<open>The text of an error: \<open>retDict['Message']\<close> of an error value, \<open>str( x )\<close> of an
  exception.\<close>

fun message :: "error \<Rightarrow> string" where
  "message (S_ERROR n msg) = msg"
| "message (Raised msg) = msg"

definition isDateTime :: "env \<Rightarrow> string \<Rightarrow> bool" where
  "isDateTime env dateString =
     (if dateString = ''UTC_TIMESTAMP()'' then True
      else fromString env (replace [CHR 0x27] [] (replace [CHR 0x22] [] dateString)))"

definition timeUnits :: "string list" where
  "timeUnits = [''MICROSECOND'', ''SECOND'', ''MINUTE'', ''HOUR'', ''DAY'', ''WEEK'', ''MONTH'',
                ''QUARTER'', ''YEAR'']"

text \<open>The loop over the two time functions in \<open>__escapeString\<close>: \<open>Some r\<close> when the loop
  returns \<open>r\<close>, \<open>None\<close> when it ends without returning. A wrong number of arguments is
  the ValueError of the unpacking, caught and turned into an error value.\<close>

fun escape_timefunc :: "env \<Rightarrow> string \<Rightarrow> string list \<Rightarrow> (error + string) option" where
  "escape_timefunc env myString [] = None"
| "escape_timefunc env myString (func # funcs) =
     (if startswith (strip myString) (func @ ''('') \<and> endswith (strip myString) '')''
      then (case map strip (split (CHR '','')
                     (strip (replace (func @ ''('') [] (butlast (strip myString))))) of
              [arg1, arg2, arg3] \<Rightarrow>
                (if arg1 \<in> set timeUnits
                    \<and> (isDateTime env arg2 \<or> isalnum arg2)
                    \<and> (isDateTime env arg3 \<or> isalnum arg3)
                 then Some (Inr myString)
                 else Some (Inl (S_ERROR EMYSQL ''__escape_string: Could not escape string'')))
            | args \<Rightarrow>
                Some (Inl (except_other
                  (if length args < 3 then ''need more than '' @ str_nat (length args) @ '' values to unpack''
                   else ''too many values to unpack'')
                  ''Could not escape string'')))
      else escape_timefunc env myString funcs)"

definition escapeString :: "env \<Rightarrow> mysql \<Rightarrow> thid \<Rightarrow> scalar \<Rightarrow> world \<Rightarrow> (error + string) \<times> world" where
  "escapeString env self me v w =
     (case getConnection env self me w of
        (Inl e, w1) \<Rightarrow> (Inl e, w1)
      | (Inr connection, w1) \<Rightarrow>
          (let myString = str v in
           if strip myString = ''UTC_TIMESTAMP()'' then (Inr myString, w1)
           else (case escape_timefunc env myString [''TIMESTAMPDIFF'', ''TIMESTAMPADD''] of
                   Some r \<Rightarrow> (r, w1)
                 | None \<Rightarrow>
                     (Inr ([CHR 0x22] @ drv_escape_string env myString @ [CHR 0x22]), w1))))"

text \<open>The inner loop of \<open>_escapeValues\<close> over the elements of a tuple or list.\<close>

fun escape_tuple ::
  "env \<Rightarrow> mysql \<Rightarrow> thid \<Rightarrow> scalar list \<Rightarrow> string list \<Rightarrow> world \<Rightarrow> (error + string list) \<times> world" where
  "escape_tuple env self me [] tupleValues w = (Inr tupleValues, w)"
| "escape_tuple env self me (v # vs) tupleValues w =
     (case escapeString env self me v w of
        (Inl e, w1) \<Rightarrow> (Inl e, w1)
      | (Inr r, w1) \<Rightarrow> escape_tuple env self me vs (tupleValues @ [r]) w1)"

text \<open>The loop of \<open>_escapeValues\<close>; the fifth argument is \<open>inEscapeValues\<close>. The tests on
  the type of the value are in the order of the source.\<close>

fun escapeValues_loop ::
  "env \<Rightarrow> mysql \<Rightarrow> thid \<Rightarrow> pyval list \<Rightarrow> string list \<Rightarrow> world \<Rightarrow> (error + string list) \<times> world" where
  "escapeValues_loop env self me [] inEscapeValues w = (Inr inEscapeValues, w)"
| "escapeValues_loop env self me (Sc (PStr s) # vs) inEscapeValues w =
     (case escapeString env self me (PStr s) w of
        (Inl e, w1) \<Rightarrow> (Inl e, w1)
      | (Inr r, w1) \<Rightarrow> escapeValues_loop env self me vs (inEscapeValues @ [r]) w1)"
| "escapeValues_loop env self me (PTuple xs # vs) inEscapeValues w =
     (case escape_tuple env self me xs [] w of
        (Inl e, w1) \<Rightarrow> (Inl e, w1)
      | (Inr tupleValues, w1) \<Rightarrow>
          escapeValues_loop env self me vs
            (inEscapeValues @ [''('' @ join '', '' tupleValues @ '')'']) w1)"
| "escapeValues_loop env self me (PList xs # vs) inEscapeValues w =
     (case escape_tuple env self me xs [] w of
        (Inl e, w1) \<Rightarrow> (Inl e, w1)
      | (Inr tupleValues, w1) \<Rightarrow>
          escapeValues_loop env self me vs
            (inEscapeValues @ [''('' @ join '', '' tupleValues @ '')'']) w1)"
| "escapeValues_loop env self me (Sc (PBool b) # vs) inEscapeValues w =
     escapeValues_loop env self me vs [str (PBool b)] w"
| "escapeValues_loop env self me (Sc v # vs) inEscapeValues w =
     (case escapeString env self me (PStr (str v)) w of
        (Inl e, w1) \<Rightarrow> (Inl e, w1)
      | (Inr r, w1) \<Rightarrow> escapeValues_loop env self me vs (inEscapeValues @ [r]) w1)"

definition escapeValues ::
  "env \<Rightarrow> mysql \<Rightarrow> thid \<Rightarrow> pyval list \<Rightarrow> world \<Rightarrow> (error + string list) \<times> world" where
  "escapeValues env self me inValues w =
     (if inValues = [] then (Inr [], w) else escapeValues_loop env self me inValues [] w)"

text \<open>\<open>_quotedList\<close>: \<open>None\<close> for no list, an empty list, or a field that is not a string
  (the caught exception of \<open>field.replace\<close>).\<close>

fun quote_fields :: "pyval list \<Rightarrow> string list option" where
  "quote_fields [] = Some []"
| "quote_fields (Sc (PStr s) # fs) =
     (case quote_fields fs of
        None \<Rightarrow> None
      | Some qs \<Rightarrow> Some ((''`'' @ replace ''`'' [] s @ ''`'') # qs))"
| "quote_fields (f # fs) = None"

definition quotedList :: "pyval list option \<Rightarrow> string option" where
  "quotedList fieldList =
     (case fieldList of
        None \<Rightarrow> None
      | Some fs \<Rightarrow>
          (case quote_fields fs of
             None \<Rightarrow> None
           | Some qs \<Rightarrow> if qs = [] then None else Some (join '', '' qs)))"

definition checkFields :: "pyval list option \<Rightarrow> pyval list option \<Rightarrow> error + unit" where
  "checkFields inFields inValues =
     (if inFields = None \<and> inValues = None then Inr ()
      else (case (inFields, inValues) of
              (Some fs, Some vs) \<Rightarrow>
                if length fs = length vs then Inr ()
                else Inl (S_ERROR EMYSQL ''Mismatch between inFields and inValues.'')
            | _ \<Rightarrow> Inl (S_ERROR EMYSQL ''Mismatch between inFields and inValues.'')))"

text \<open>\<open>_query\<close> and \<open>_update\<close>: the statement is sent on the connection of the calling
  thread; a driver error becomes an error value.\<close>

definition query ::
  "env \<Rightarrow> mysql \<Rightarrow> thid \<Rightarrow> string \<Rightarrow> world \<Rightarrow> (error + scalar list list) \<times> world" where
  "query env self me cmd w =
     (case getConnection env self me w of
        (Inl e, w1) \<Rightarrow> (Inl e, w1)
      | (Inr connection, w1) \<Rightarrow>
          (case drv_execute env (trace w1) connection cmd of
             Inl x \<Rightarrow> (Inl (except_mysql x ''Execution failed.''), log_event (Execute connection cmd) w1)
           | Inr r \<Rightarrow>
               (Inr (if rowcount r \<noteq> 0 then fetched r else []),
                log_event (Execute connection cmd) w1)))"

definition update ::
  "env \<Rightarrow> mysql \<Rightarrow> thid \<Rightarrow> string \<Rightarrow> world \<Rightarrow> (error + nat \<times> nat option) \<times> world" where
  "update env self me cmd w =
     (case getConnection env self me w of
        (Inl e, w1) \<Rightarrow> (Inl e, w1)
      | (Inr connection, w1) \<Rightarrow>
          (case drv_execute env (trace w1) connection cmd of
             Inl x \<Rightarrow> (Inl (except_mysql x ''Execution failed.''), log_event (Execute connection cmd) w1)
           | Inr r \<Rightarrow>
               (Inr (rowcount r, if lastrowid r \<noteq> 0 then Some (lastrowid r) else None),
                log_event (Execute connection cmd) w1)))"

text \<open>A server that accepts everything and answers every ping; a database object and
  a fresh pool.\<close>

definition env_ok :: env where
  "env_ok = (env_dead 1000)\<lparr>drv_ping := (\<lambda>tr c. True)\<rparr>"

definition db0 :: mysql where
  "db0 = \<lparr>self_dbName = ''db'', self_initialized = True\<rparr>"

definition w0 :: world where
  "w0 = pool_init 600 []"

section \<open>buildCondition\<close>

text \<open>A value of the condition dictionary: one value, or a list of values (each a
  scalar or a tuple, for a composite key).\<close>

datatype cval = One pyval | Many "pyval list"

text \<open>\<open>isinstance( attrValue, list )\<close>, with the elements of the list.\<close>

fun as_list :: "cval \<Rightarrow> pyval list option" where
  "as_list (Many vs) = Some vs"
| "as_list (One (PList xs)) = Some (map Sc xs)"
| "as_list (One v) = None"

fun as_value :: "cval \<Rightarrow> pyval" where
  "as_value (One v) = v"
| "as_value (Many vs) = PList []"

text \<open>The test \<open>if not x\<close> on a string or None.\<close>

fun nonempty :: "string option \<Rightarrow> string option" where
  "nonempty None = None"
| "nonempty (Some s) = (if s = [] then None else Some s)"

text \<open>The name of the attribute in the loop over \<open>condDict\<close>. The second argument is
  the local variable \<open>attrName\<close> on entry (\<open>None\<close>: not yet bound), which a key that
  is neither a string nor a tuple leaves as it is.\<close>

definition cond_attrName :: "pyval \<Rightarrow> string option \<Rightarrow> error + string" where
  "cond_attrName aName attrName0 =
     (case (case aName of
              Sc (PStr s) \<Rightarrow> Inr (quotedList (Some [aName]))
            | PTuple xs \<Rightarrow>
                (case quotedList (Some (map Sc xs)) of
                   None \<Rightarrow> Inl (Raised ''TypeError: cannot concatenate str and NoneType objects'')
                 | Some q \<Rightarrow> Inr (Some (''('' @ q @ '')'')))
            | _ \<Rightarrow>
                (case attrName0 of
                   None \<Rightarrow> Inl (Raised ''UnboundLocalError: local variable attrName referenced before assignment'')
                 | Some a \<Rightarrow> Inr (Some a))) of
        Inl e \<Rightarrow> Inl e
      | Inr a \<Rightarrow>
          (case nonempty a of
             None \<Rightarrow> Inl (Raised ''Invalid condDict argument'')
           | Some attrName \<Rightarrow> Inr attrName))"

text \<open>\<open>_escapeValues( [ v ] )\<close> followed by \<open>retDict['Value'][0]\<close>; a failure is raised
  as an exception with the text of the error.\<close>

definition escape_first :: "env \<Rightarrow> mysql \<Rightarrow> thid \<Rightarrow> pyval \<Rightarrow> world \<Rightarrow> (error + string) \<times> world" where
  "escape_first env self me v w =
     (case escapeValues env self me [v] w of
        (Inl e, w1) \<Rightarrow> (Inl (Raised (message e)), w1)
      | (Inr [], w1) \<Rightarrow> (Inl (Raised ''IndexError: list index out of range''), w1)
      | (Inr (x # xs), w1) \<Rightarrow> (Inr x, w1))"

text \<open>The loop over \<open>condDict\<close>; the state is \<open>( condition, conjunction, attrName )\<close>.\<close>

fun cond_loop ::
  "env \<Rightarrow> mysql \<Rightarrow> thid \<Rightarrow> (pyval \<times> cval) list \<Rightarrow> string \<times> string \<times> string option \<Rightarrow> world
   \<Rightarrow> (error + string \<times> string \<times> string option) \<times> world" where
  "cond_loop env self me [] st w = (Inr st, w)"
| "cond_loop env self me ((aName, attrValue) # rest) (condition, conjunction, attrName0) w =
     (case cond_attrName aName attrName0 of
        Inl e \<Rightarrow> (Inl e, w)
      | Inr attrName \<Rightarrow>
          (case as_list attrValue of
             Some vs \<Rightarrow>
               (case escapeValues env self me vs w of
                  (Inl e, w1) \<Rightarrow> (Inl (Raised (message e)), w1)
                | (Inr escapeInValues, w1) \<Rightarrow>
                    cond_loop env self me rest
                      ('' '' @ condition @ '' '' @ conjunction @ '' '' @ attrName @ '' IN ( ''
                         @ join '', '' escapeInValues @ '' )'',
                       ''AND'', Some attrName) w1)
           | None \<Rightarrow>
               (case escape_first env self me (as_value attrValue) w of
                  (Inl e, w1) \<Rightarrow> (Inl e, w1)
                | (Inr escapeInValue, w1) \<Rightarrow>
                    cond_loop env self me rest
                      ('' '' @ condition @ '' '' @ conjunction @ '' '' @ attrName @ '' = ''
                         @ escapeInValue,
                       ''AND'', Some attrName) w1)))"

text \<open>The bounds on the time stamp; the state is \<open>( condition, conjunction )\<close>. The
  \<open>older\<close> branch of the source does not assign \<open>conjunction\<close>.\<close>

definition time_bounds ::
  "env \<Rightarrow> mysql \<Rightarrow> thid \<Rightarrow> pyval \<Rightarrow> pyval \<Rightarrow> pyval \<Rightarrow> string \<times> string \<Rightarrow> world
   \<Rightarrow> (error + string \<times> string) \<times> world" where
  "time_bounds env self me timeStamp newer older st w =
     (if truthy timeStamp
      then (case nonempty (quotedList (Some [timeStamp])) of
              None \<Rightarrow> (Inl (Raised ''Invalid timeStamp argument''), w)
            | Some ts \<Rightarrow>
                (case (if truthy newer
                       then (case escape_first env self me newer w of
                               (Inl e, w1) \<Rightarrow> (Inl e, w1)
                             | (Inr escapeInValue, w1) \<Rightarrow>
                                 (Inr ('' '' @ fst st @ '' '' @ snd st @ '' '' @ ts @ '' >= ''
                                         @ escapeInValue, ''AND''), w1))
                       else (Inr st, w)) of
                   (Inl e, w1) \<Rightarrow> (Inl e, w1)
                 | (Inr (condition, conjunction), w1) \<Rightarrow>
                     (if truthy older
                      then (case escape_first env self me older w1 of
                              (Inl e, w2) \<Rightarrow> (Inl e, w2)
                            | (Inr escapeInValue, w2) \<Rightarrow>
                                (Inr ('' '' @ condition @ '' '' @ conjunction @ '' '' @ ts @ '' < ''
                                        @ escapeInValue, conjunction), w2))
                      else (Inr (condition, conjunction), w1))))
      else (Inr st, w))"

text \<open>The loops over \<open>greater\<close> and \<open>smaller\<close>, which differ in the operator and in the
  text of the exception.\<close>

fun bound_loop ::
  "env \<Rightarrow> mysql \<Rightarrow> thid \<Rightarrow> string \<Rightarrow> string \<Rightarrow> (pyval \<times> pyval) list \<Rightarrow> string \<times> string \<Rightarrow> world
   \<Rightarrow> (error + string \<times> string) \<times> world" where
  "bound_loop env self me oper invalid [] st w = (Inr st, w)"
| "bound_loop env self me oper invalid ((aName, attrValue) # rest) (condition, conjunction) w =
     (case nonempty (quotedList (Some [aName])) of
        None \<Rightarrow> (Inl (Raised invalid), w)
      | Some attrName \<Rightarrow>
          (case escape_first env self me attrValue w of
             (Inl e, w1) \<Rightarrow> (Inl e, w1)
           | (Inr escapeInValue, w1) \<Rightarrow>
               bound_loop env self me oper invalid rest
                 ('' '' @ condition @ '' '' @ conjunction @ '' '' @ attrName @ oper @ escapeInValue,
                  ''AND'') w1))"

text \<open>The loop over the order attributes; the second argument is \<open>orderList\<close>.\<close>

fun order_loop :: "pyval list \<Rightarrow> string list \<Rightarrow> error + string list" where
  "order_loop [] orderList = Inr orderList"
| "order_loop (Sc PNone # rest) orderList = order_loop rest orderList"
| "order_loop (Sc (PStr orderAttr) # rest) orderList =
     (case nonempty (quotedList (Some (map (\<lambda>s. Sc (PStr s)) (take 1 (split (CHR '':'') orderAttr))))) of
        None \<Rightarrow> Inl (Raised ''Invalid orderAttribute argument'')
      | Some orderField \<Rightarrow>
          (if length (split (CHR '':'') orderAttr) = 2
           then (let orderType = upper (split (CHR '':'') orderAttr ! 1) in
                 if orderType \<in> set [''ASC'', ''DESC'']
                 then order_loop rest (orderList @ [orderField @ '' '' @ orderType])
                 else Inl (Raised ''Invalid orderAttribute argument''))
           else order_loop rest (orderList @ [orderAttr])))"
| "order_loop (v # rest) orderList = Inl (Raised ''Invalid orderAttribute argument'')"

text \<open>The format \<open>%d\<close>: \<open>None\<close> is the TypeError of a value that is not a number.\<close>

fun fmt_d :: "pyval \<Rightarrow> string option" where
  "fmt_d (Sc (PInt i)) = Some (str_int i)"
| "fmt_d (Sc (PBool b)) = Some (if b then ''1'' else ''0'')"
| "fmt_d v = None"

definition add_limit :: "string \<Rightarrow> pyval \<Rightarrow> pyval \<Rightarrow> error + string" where
  "add_limit condition limit offset =
     (if truthy limit
      then (if truthy offset
            then (case (fmt_d limit, fmt_d offset) of
                    (Some l, Some off) \<Rightarrow> Inr (condition @ '' LIMIT '' @ l @ '' OFFSET '' @ off)
                  | _ \<Rightarrow> Inl (Raised ''TypeError: %d format: a number is required''))
            else (case fmt_d limit of
                    Some l \<Rightarrow> Inr (condition @ '' LIMIT '' @ l)
                  | None \<Rightarrow> Inl (Raised ''TypeError: %d format: a number is required'')))
      else Inr condition)"

fun dict_items :: "('k \<times> 'v) list option \<Rightarrow> ('k \<times> 'v) list" where
  "dict_items None = []"
| "dict_items (Some d) = d"

text \<open>\<open>buildCondition\<close>. \<open>greater\<close> and \<open>smaller\<close> are a dictionary or anything else
  (\<open>None\<close>). A validation failure is an exception.\<close>

definition buildCondition ::
  "env \<Rightarrow> mysql \<Rightarrow> thid \<Rightarrow> (pyval \<times> cval) list option \<Rightarrow> pyval \<Rightarrow> pyval \<Rightarrow> pyval \<Rightarrow> pyval \<Rightarrow> pyval
   \<Rightarrow> (pyval \<times> pyval) list option \<Rightarrow> (pyval \<times> pyval) list option \<Rightarrow> pyval \<Rightarrow> world
   \<Rightarrow> (error + string) \<times> world" where
  "buildCondition env self me condDict older newer timeStamp orderAttribute limit greaterDict smallerDict offset w =
     (case cond_loop env self me (dict_items condDict) ([], ''WHERE'', None) w of
        (Inl e, w1) \<Rightarrow> (Inl e, w1)
      | (Inr (c1, j1, a), w1) \<Rightarrow>
     (case time_bounds env self me timeStamp newer older (c1, j1) w1 of
        (Inl e, w2) \<Rightarrow> (Inl e, w2)
      | (Inr st2, w2) \<Rightarrow>
     (case bound_loop env self me '' >= '' ''Invalid greater argument'' (dict_items greaterDict) st2 w2 of
        (Inl e, w3) \<Rightarrow> (Inl e, w3)
      | (Inr st3, w3) \<Rightarrow>
     (case bound_loop env self me '' < '' ''Invalid smaller argument'' (dict_items smallerDict) st3 w3 of
        (Inl e, w4) \<Rightarrow> (Inl e, w4)
      | (Inr (c4, j4), w4) \<Rightarrow>
     (case order_loop (case orderAttribute of PList xs \<Rightarrow> map Sc xs | v \<Rightarrow> [v]) [] of
        Inl e \<Rightarrow> (Inl e, w4)
      | Inr orderList \<Rightarrow>
          (add_limit (if orderList \<noteq> [] then c4 @ '' ORDER BY '' @ join '', '' orderList else c4)
             limit offset, w4))))))"

section \<open>The high-level helpers\<close>

text \<open>\<open>limit[0]\<close> and \<open>limit[1]\<close> in \<open>getFields\<close>: \<open>None\<close> when the subscript raises.\<close>

fun subscript :: "pyval \<Rightarrow> nat \<Rightarrow> pyval option" where
  "subscript (PList xs) i = (if i < length xs then Some (Sc (xs ! i)) else None)"
| "subscript (PTuple xs) i = (if i < length xs then Some (Sc (xs ! i)) else None)"
| "subscript (Sc (PStr s)) i = (if i < length s then Some (Sc (PStr [s ! i])) else None)"
| "subscript (Sc v) i = None"

definition split_limit :: "pyval \<Rightarrow> pyval \<times> pyval" where
  "split_limit limit =
     (case (subscript limit 0, subscript limit 1) of
        (Some mylimit, Some myoffset) \<Rightarrow> (mylimit, myoffset)
      | _ \<Rightarrow> (limit, Sc PNone))"

text \<open>
  Each helper takes the arguments of the source but \<open>conn\<close> (never read, see
  \<open>getConnection\<close>). The arguments \<open>greater\<close> and \<open>smaller\<close> are written \<open>greaterDict\<close> and
  \<open>smallerDict\<close>. An exception of \<open>buildCondition\<close> is caught and returned as an error
  value with its text.
\<close>

definition getFields ::
  "env \<Rightarrow> mysql \<Rightarrow> thid \<Rightarrow> pyval \<Rightarrow> pyval list option \<Rightarrow> (pyval \<times> cval) list option \<Rightarrow> pyval
   \<Rightarrow> pyval \<Rightarrow> pyval \<Rightarrow> pyval \<Rightarrow> pyval
   \<Rightarrow> (pyval \<times> pyval) list option \<Rightarrow> (pyval \<times> pyval) list option \<Rightarrow> world
   \<Rightarrow> (error + scalar list list) \<times> world" where
  "getFields env self me tableName outFields condDict limit older newer timeStamp orderAttribute
     greaterDict smallerDict w =
     (case nonempty (quotedList (Some [tableName])) of
        None \<Rightarrow> (Inl (S_ERROR EMYSQL ''Invalid tableName argument''), w)
      | Some table \<Rightarrow>
     (case (if outFields \<noteq> None \<and> outFields \<noteq> Some []
            then (case quotedList outFields of
                    None \<Rightarrow> Inl (S_ERROR EMYSQL ''Invalid outFields arguments'')
                  | Some q \<Rightarrow> Inr q)
            else Inr ''*'') of
        Inl e \<Rightarrow> (Inl e, w)
      | Inr quotedOutFields \<Rightarrow>
     (case buildCondition env self me (Some (dict_items condDict)) older newer timeStamp orderAttribute
             (fst (split_limit limit)) None None (snd (split_limit limit)) w of
        (Inl x, w1) \<Rightarrow> (Inl (S_ERROR EMYSQL (message x)), w1)
      | (Inr condition, w1) \<Rightarrow>
          query env self me (''SELECT '' @ quotedOutFields @ '' FROM '' @ table @ '' '' @ condition) w1)))"

definition deleteEntries ::
  "env \<Rightarrow> mysql \<Rightarrow> thid \<Rightarrow> pyval \<Rightarrow> (pyval \<times> cval) list option \<Rightarrow> pyval
   \<Rightarrow> pyval \<Rightarrow> pyval \<Rightarrow> pyval \<Rightarrow> pyval
   \<Rightarrow> (pyval \<times> pyval) list option \<Rightarrow> (pyval \<times> pyval) list option \<Rightarrow> world
   \<Rightarrow> (error + nat \<times> nat option) \<times> world" where
  "deleteEntries env self me tableName condDict limit older newer timeStamp orderAttribute
     greaterDict smallerDict w =
     (case nonempty (quotedList (Some [tableName])) of
        None \<Rightarrow> (Inl (S_ERROR EMYSQL ''Invalid tableName argument''), w)
      | Some table \<Rightarrow>
     (case buildCondition env self me condDict older newer timeStamp orderAttribute
             limit None None (Sc PNone) w of
        (Inl x, w1) \<Rightarrow> (Inl (S_ERROR EMYSQL (message x)), w1)
      | (Inr condition, w1) \<Rightarrow>
          update env self me (''DELETE FROM '' @ table @ '' '' @ condition) w1))"

text \<open>A list argument that may be None, read as a list.\<close>

fun list_items :: "'a list option \<Rightarrow> 'a list" where
  "list_items None = []"
| "list_items (Some xs) = xs"

fun is_PStr :: "pyval \<Rightarrow> bool" where
  "is_PStr (Sc (PStr s)) = True"
| "is_PStr v = False"

text \<open>The text of the fields list for the log, \<open>', '.join( updateFields )\<close>, raises on a
  field that is not a string. The list of \<open>SET\<close> clauses reads the escaped values by
  index and raises when there are fewer of them than fields.\<close>

fun set_clauses :: "pyval list \<Rightarrow> string list \<Rightarrow> string list option" where
  "set_clauses [] vs = Some []"
| "set_clauses (f # fs) [] = None"
| "set_clauses (f # fs) (v # vs) =
     (case set_clauses fs vs of
        None \<Rightarrow> None
      | Some cs \<Rightarrow>
          Some (((case quotedList (Some [f]) of None \<Rightarrow> ''None'' | Some q \<Rightarrow> q) @ '' = '' @ v) # cs))"

definition updateFields ::
  "env \<Rightarrow> mysql \<Rightarrow> thid \<Rightarrow> pyval \<Rightarrow> pyval list option \<Rightarrow> pyval list option
   \<Rightarrow> (pyval \<times> cval) list option \<Rightarrow> pyval \<Rightarrow> (pyval \<times> pyval) list option
   \<Rightarrow> pyval \<Rightarrow> pyval \<Rightarrow> pyval \<Rightarrow> pyval
   \<Rightarrow> (pyval \<times> pyval) list option \<Rightarrow> (pyval \<times> pyval) list option \<Rightarrow> world
   \<Rightarrow> (error + nat \<times> nat option) \<times> world" where
  "updateFields env self me tableName updateFields0 updateValues0 condDict limit updateDict
     older newer timeStamp orderAttribute greaterDict smallerDict w =
     (if (updateFields0 = None \<or> updateFields0 = Some []) \<and> (updateDict = None \<or> updateDict = Some [])
      then (Inr (0, None), w)
      else
     (case nonempty (quotedList (Some [tableName])) of
        None \<Rightarrow> (Inl (S_ERROR EMYSQL ''Invalid tableName argument''), w)
      | Some table \<Rightarrow>
     (case checkFields updateFields0 updateValues0 of
        Inl e \<Rightarrow> (Inl (S_ERROR EMYSQL ''Mismatch between updateFields and updateValues.''), w)
      | Inr u \<Rightarrow>
     (let updateFields1 = list_items updateFields0 @ map fst (dict_items updateDict);
          updateValues1 = (if updateFields0 = None then [] else list_items updateValues0)
                            @ map snd (dict_items updateDict)
      in
     (case escapeValues env self me updateValues1 w of
        (Inl e, w1) \<Rightarrow> (Inl e, w1)
      | (Inr updateValues2, w1) \<Rightarrow>
     (if \<not> list_all is_PStr updateFields1
      then (Inl (Raised ''TypeError: sequence item: expected string''), w1)
      else
     (case buildCondition env self me condDict older newer timeStamp orderAttribute
             limit None None (Sc PNone) w1 of
        (Inl x, w2) \<Rightarrow> (Inl (S_ERROR EMYSQL (message x)), w2)
      | (Inr condition, w2) \<Rightarrow>
     (case set_clauses updateFields1 updateValues2 of
        None \<Rightarrow> (Inl (Raised ''IndexError: list index out of range''), w2)
      | Some cs \<Rightarrow>
          update env self me
            (''UPDATE '' @ table @ '' SET '' @ join '','' cs @ '' '' @ condition) w2))))))))"

definition insertFields ::
  "env \<Rightarrow> mysql \<Rightarrow> thid \<Rightarrow> pyval \<Rightarrow> pyval list option \<Rightarrow> pyval list option
   \<Rightarrow> (pyval \<times> pyval) list option \<Rightarrow> world
   \<Rightarrow> (error + nat \<times> nat option) \<times> world" where
  "insertFields env self me tableName inFields inValues inDict w =
     (case nonempty (quotedList (Some [tableName])) of
        None \<Rightarrow> (Inl (S_ERROR EMYSQL ''Invalid tableName argument''), w)
      | Some table \<Rightarrow>
     (case checkFields inFields inValues of
        Inl e \<Rightarrow> (Inl e, w)
      | Inr u \<Rightarrow>
     (let inFields1 = list_items inFields @ map fst (dict_items inDict);
          inValues1 = (if inFields = None then [] else list_items inValues)
                        @ map snd (dict_items inDict)
      in
     (case quotedList (Some inFields1) of
        None \<Rightarrow> (Inl (S_ERROR EMYSQL ''Invalid inFields arguments''), w)
      | Some inFieldString \<Rightarrow>
     (case escapeValues env self me inValues1 w of
        (Inl e, w1) \<Rightarrow> (Inl e, w1)
      | (Inr vs, w1) \<Rightarrow>
          update env self me
            (''INSERT INTO '' @ table @ '' (  '' @ inFieldString @ '' ) VALUES (  ''
               @ join '', '' vs @ '' )'') w1)))))"

definition countEntries ::
  "env \<Rightarrow> mysql \<Rightarrow> thid \<Rightarrow> pyval \<Rightarrow> (pyval \<times> cval) list option \<Rightarrow> pyval \<Rightarrow> pyval \<Rightarrow> pyval
   \<Rightarrow> (pyval \<times> pyval) list option \<Rightarrow> (pyval \<times> pyval) list option \<Rightarrow> world
   \<Rightarrow> (error + scalar) \<times> world" where
  "countEntries env self me table0 condDict older newer timeStamp greaterDict smallerDict w =
     (case nonempty (quotedList (Some [table0])) of
        None \<Rightarrow> (Inl (S_ERROR EMYSQL ''Invalid table argument''), w)
      | Some table \<Rightarrow>
     (case buildCondition env self me condDict older newer timeStamp (Sc PNone)
             (Sc (PBool False)) None None (Sc PNone) w of
        (Inl x, w1) \<Rightarrow> (Inl (S_ERROR EMYSQL (message x)), w1)
      | (Inr cond, w1) \<Rightarrow>
     (case query env self me (''SELECT COUNT(*) FROM '' @ table @ '' '' @ cond) w1 of
        (Inl e, w2) \<Rightarrow> (Inl e, w2)
      | (Inr ((x # xs) # rows), w2) \<Rightarrow> (Inr x, w2)
      | (Inr rows, w2) \<Rightarrow> (Inl (Raised ''IndexError: tuple index out of range''), w2))))"

text \<open>The rows of \<open>getCounters\<close>: the dictionary from attribute to value (a later
  attribute of the same name replaces an earlier one) and the count that follows.\<close>

fun counter_rows :: "pyval list \<Rightarrow> scalar list list \<Rightarrow> ((pyval \<times> scalar) list \<times> scalar) list option" where
  "counter_rows attrList [] = Some []"
| "counter_rows attrList (raw # rows) =
     (if length attrList < length raw
      then (case counter_rows attrList rows of
              None \<Rightarrow> None
            | Some rest \<Rightarrow>
                Some ((fold (\<lambda>(k, v). AList.update k v) (zip attrList raw) [], raw ! length attrList)
                      # rest))
      else None)"

definition getCounters ::
  "env \<Rightarrow> mysql \<Rightarrow> thid \<Rightarrow> pyval \<Rightarrow> pyval list option \<Rightarrow> (pyval \<times> cval) list option
   \<Rightarrow> pyval \<Rightarrow> pyval \<Rightarrow> pyval
   \<Rightarrow> (pyval \<times> pyval) list option \<Rightarrow> (pyval \<times> pyval) list option \<Rightarrow> world
   \<Rightarrow> (error + ((pyval \<times> scalar) list \<times> scalar) list) \<times> world" where
  "getCounters env self me table0 attrList condDict older newer timeStamp greaterDict smallerDict w =
     (case nonempty (quotedList (Some [table0])) of
        None \<Rightarrow> (Inl (S_ERROR EMYSQL ''Invalid table argument''), w)
      | Some table \<Rightarrow>
     (case quotedList attrList of
        None \<Rightarrow> (Inl (S_ERROR EMYSQL ''Invalid updateFields argument''), w)
      | Some attrNames \<Rightarrow>
     (case buildCondition env self me condDict older newer timeStamp (Sc PNone)
             (Sc (PBool False)) None None (Sc PNone) w of
        (Inl x, w1) \<Rightarrow> (Inl (S_ERROR EMYSQL (message x)), w1)
      | (Inr cond, w1) \<Rightarrow>
     (case query env self me
             (''SELECT '' @ attrNames @ '', COUNT(*) FROM '' @ table @ '' '' @ cond
                @ '' GROUP BY '' @ attrNames @ '' ORDER BY '' @ attrNames) w1 of
        (Inl e, w2) \<Rightarrow> (Inl e, w2)
      | (Inr rows, w2) \<Rightarrow>
          (case counter_rows (list_items attrList) rows of
             None \<Rightarrow> (Inl (Raised ''IndexError: tuple index out of range''), w2)
           | Some resultList \<Rightarrow> (Inr resultList, w2))))))"

fun first_column :: "scalar list list \<Rightarrow> scalar list option" where
  "first_column [] = Some []"
| "first_column ([] # rows) = None"
| "first_column ((x # xs) # rows) =
     (case first_column rows of None \<Rightarrow> None | Some r \<Rightarrow> Some (x # r))"

definition getDistinctAttributeValues ::
  "env \<Rightarrow> mysql \<Rightarrow> thid \<Rightarrow> pyval \<Rightarrow> pyval \<Rightarrow> (pyval \<times> cval) list option
   \<Rightarrow> pyval \<Rightarrow> pyval \<Rightarrow> pyval
   \<Rightarrow> (pyval \<times> pyval) list option \<Rightarrow> (pyval \<times> pyval) list option \<Rightarrow> world
   \<Rightarrow> (error + scalar list) \<times> world" where
  "getDistinctAttributeValues env self me table0 attribute0 condDict older newer timeStamp
     greaterDict smallerDict w =
     (case nonempty (quotedList (Some [table0])) of
        None \<Rightarrow> (Inl (S_ERROR EMYSQL ''Invalid table argument''), w)
      | Some table \<Rightarrow>
     (case nonempty (quotedList (Some [attribute0])) of
        None \<Rightarrow> (Inl (S_ERROR EMYSQL ''Invalid attribute argument''), w)
      | Some attributeName \<Rightarrow>
     (case buildCondition env self me condDict older newer timeStamp (Sc PNone)
             (Sc (PBool False)) None None (Sc PNone) w of
        (Inl x, w1) \<Rightarrow> (Inl (S_ERROR EMYSQL (message x)), w1)
      | (Inr cond, w1) \<Rightarrow>
     (case query env self me
             (''SELECT  DISTINCT( '' @ attributeName @ '' ) FROM '' @ table @ '' '' @ cond
                @ '' ORDER BY '' @ attributeName) w1 of
        (Inl e, w2) \<Rightarrow> (Inl e, w2)
      | (Inr rows, w2) \<Rightarrow>
          (case first_column rows of
             None \<Rightarrow> (Inl (Raised ''IndexError: tuple index out of range''), w2)
           | Some attr_list \<Rightarrow> (Inr attr_list, w2))))))"

section \<open>The schema manager: \<open>__checkTable\<close> and \<open>_createTables\<close>\<close>

text \<open>The description of a table: the keys of its dictionary, \<open>None\<close> for a key that is
  missing. A primary key is a string or a list of field names.\<close>

datatype primary_key = PKName string | PKList "string list"

record tabledesc =
  Fields :: "(string \<times> string) list option"
  ForeignKeys :: "(string \<times> string) list option"
  PrimaryKey :: "primary_key option"
  Indexes :: "(string \<times> string list) list option"
  UniqueIndexes :: "(string \<times> string list) list option"
  Engine :: "string option"
  Charset :: "string option"

type_synonym tabledict = "(string \<times> tabledesc) list"

definition checkTable ::
  "env \<Rightarrow> mysql \<Rightarrow> thid \<Rightarrow> string \<Rightarrow> bool \<Rightarrow> world \<Rightarrow> (error + unit) \<times> world" where
  "checkTable env self me tableName force w =
     (case nonempty (quotedList (Some [Sc (PStr tableName)])) of
        None \<Rightarrow> (Inl (S_ERROR EMYSQL ''Invalid tableName argument''), w)
      | Some table \<Rightarrow>
          (case query env self me ''SHOW TABLES'' w of
             (Inl e, w1) \<Rightarrow> (Inl e, w1)
           | (Inr rows, w1) \<Rightarrow>
               (if [PStr tableName] \<in> set rows
                then (if \<not> force
                      then (Inl (S_ERROR EMYSQL ''The requested table already exist''), w1)
                      else (case update env self me (''DROP TABLE '' @ table) w1 of
                              (Inl e, w2) \<Rightarrow> (Inl e, w2)
                            | (Inr r, w2) \<Rightarrow> (Inr (), w2)))
                else (Inr (), w1))))"

text \<open>The first check of \<open>_createTables\<close>: every table has the key \<open>Fields\<close>.\<close>

fun missing_fields :: "tabledict \<Rightarrow> error option" where
  "missing_fields [] = None"
| "missing_fields ((table, thisTable) # rest) =
     (if Fields thisTable = None
      then Some (S_ERROR EMYSQL (''Missing `Fields` key in `'' @ table @ ''` table dictionary''))
      else missing_fields rest)"

text \<open>\<open>auxTable.split( '.' )[0]\<close>, and the key it refers to.\<close>

definition forTable_of :: "string \<Rightarrow> string" where
  "forTable_of auxTable = (case split (CHR ''.'') auxTable of [] \<Rightarrow> [] | p # ps \<Rightarrow> p)"

definition forKey_of :: "string \<Rightarrow> string \<Rightarrow> string" where
  "forKey_of key auxTable =
     (if forTable_of auxTable \<noteq> auxTable
      then (case split (CHR ''.'') auxTable of p # q # qs \<Rightarrow> q | ps \<Rightarrow> key)
      else key)"

definition field_names :: "tabledesc \<Rightarrow> string list" where
  "field_names thisTable = map fst (dict_items (Fields thisTable))"

text \<open>The loop over the foreign keys of a table: \<open>Inr toBeExtracted\<close>, or the error
  returned from inside the loop.\<close>

fun check_keys ::
  "tabledict \<Rightarrow> string list \<Rightarrow> string \<Rightarrow> tabledesc \<Rightarrow> (string \<times> string) list \<Rightarrow> error + bool" where
  "check_keys tableDict auxiliaryTableList table thisTable [] = Inr True"
| "check_keys tableDict auxiliaryTableList table thisTable ((key, auxTable) # rest) =
     (if forTable_of auxTable \<notin> set auxiliaryTableList then Inr False
      else if key \<notin> set (field_names thisTable)
      then Inl (S_ERROR EMYSQL (''ForeignKey `'' @ key @ ''` -> `'' @ forKey_of key auxTable
                  @ ''` not defined in Primary table `'' @ table @ ''`.''))
      else (case map_of tableDict (forTable_of auxTable) of
              None \<Rightarrow> Inl (Raised ''KeyError'')
            | Some forDesc \<Rightarrow>
                if forKey_of key auxTable \<notin> set (field_names forDesc)
                then Inl (S_ERROR EMYSQL (''ForeignKey `'' @ key @ ''` -> `'' @ forKey_of key auxTable
                            @ ''` not defined in Auxiliary table `'' @ forTable_of auxTable @ ''`.''))
                else check_keys tableDict auxiliaryTableList table thisTable rest))"

text \<open>One pass of \<open>for table in list( tableList )\<close>; the state is
  \<open>( extracted, tableList, tableCreationList )\<close>. \<open>tableList.remove\<close> and the subscript
  \<open>tableCreationList[i]\<close> raise when the element or the index is missing.\<close>

fun extract_round ::
  "tabledict \<Rightarrow> string list \<Rightarrow> nat \<Rightarrow> string list \<Rightarrow> bool \<times> string list \<times> string list list
   \<Rightarrow> error + bool \<times> string list \<times> string list list" where
  "extract_round tableDict auxiliaryTableList i [] st = Inr st"
| "extract_round tableDict auxiliaryTableList i (table # rest) (extracted, tableList, tableCreationList) =
     (case map_of tableDict table of
        None \<Rightarrow> Inl (Raised ''KeyError'')
      | Some thisTable \<Rightarrow>
          (case (case ForeignKeys thisTable of
                   None \<Rightarrow> Inr True
                 | Some thisKeys \<Rightarrow> check_keys tableDict auxiliaryTableList table thisTable thisKeys) of
             Inl e \<Rightarrow> Inl e
           | Inr toBeExtracted \<Rightarrow>
               (if toBeExtracted
                then (if table \<notin> set tableList then Inl (Raised ''ValueError: list.remove(x): x not in list'')
                      else if \<not> i < length tableCreationList
                      then Inl (Raised ''IndexError: list index out of range'')
                      else extract_round tableDict auxiliaryTableList i rest
                             (True, remove1 table tableList,
                              tableCreationList[i := tableCreationList ! i @ [table]]))
                else extract_round tableDict auxiliaryTableList i rest
                       (extracted, tableList, tableCreationList))))"

lemma extract_round_length:
  "extract_round td aux i ts (ex0, tl0, tcl0) = Inr (ex1, tl1, tcl1) \<Longrightarrow>
   length tl1 \<le> length tl0 \<and> (ex1 \<and> \<not> ex0 \<longrightarrow> length tl1 < length tl0)"
proof (induction ts arbitrary: ex0 tl0 tcl0)
  case Nil
  then show ?case by simp
next
  case (Cons t ts)
  show ?case
  proof (cases "map_of td t")
    case None
    with Cons.prems show ?thesis by simp
  next
    case (Some d)
    obtain b where b: "(case ForeignKeys d of None \<Rightarrow> Inr True | Some ks \<Rightarrow> check_keys td aux t d ks) = Inr b"
      using Cons.prems Some by (auto split: sum.splits)
    show ?thesis
    proof (cases b)
      case False
      then show ?thesis using Cons.prems Some b Cons.IH [of ex0 tl0 tcl0] by simp
    next
      case True
      then have t: "t \<in> set tl0" "i < length tcl0"
        and r: "extract_round td aux i ts (True, remove1 t tl0, tcl0[i := tcl0 ! i @ [t]]) = Inr (ex1, tl1, tcl1)"
        using Cons.prems Some b by (auto split: if_splits)
      have "length (remove1 t tl0) < length tl0" using t(1) by (simp add: length_remove1) (cases tl0; simp)
      then show ?thesis using Cons.IH [OF r] by simp
    qed
  qed
qed

text \<open>The \<open>while\<close> loop of \<open>_createTables\<close>, from the state
  \<open>( tableCreationList, auxiliaryTableList, i, extracted, tableList )\<close>; it returns the
  final \<open>tableCreationList\<close> and \<open>tableList\<close>.\<close>

function extract_loop ::
  "tabledict \<Rightarrow> string list list \<Rightarrow> string list \<Rightarrow> nat \<Rightarrow> bool \<Rightarrow> string list
   \<Rightarrow> error + string list list \<times> string list" where
  "extract_loop tableDict tableCreationList auxiliaryTableList i extracted tableList =
     (if tableList \<noteq> [] \<and> extracted
      then (if \<not> i < length tableCreationList then Inl (Raised ''IndexError: list index out of range'')
            else (case extract_round tableDict (auxiliaryTableList @ tableCreationList ! i) (i + 1)
                         tableList (False, tableList, tableCreationList @ [[]]) of
                    Inl e \<Rightarrow> Inl e
                  | Inr (extracted1, tableList1, tableCreationList1) \<Rightarrow>
                      extract_loop tableDict tableCreationList1
                        (auxiliaryTableList @ tableCreationList ! i) (i + 1) extracted1 tableList1))
      else Inr (tableCreationList, tableList))"
  by pat_completeness auto
termination
proof (relation "measure (\<lambda>(td, tcl, aux, i, ex, tl). 2 * length tl + (if ex then 1 else 0))", goal_cases)
  case 1
  show ?case by simp
next
  case (2 tableDict tableCreationList auxiliaryTableList i extracted tableList x2 x y xa ya)
  then show ?case using extract_round_length [of tableDict "auxiliaryTableList @ tableCreationList ! i" "i + 1" tableList False tableList "tableCreationList @ [[]]" x xa ya]
    by auto
qed

declare extract_loop.simps [simp del]

text \<open>The statement that creates a table.\<close>

definition create_cmd :: "string \<Rightarrow> tabledesc \<Rightarrow> string" where
  "create_cmd table thisTable =
     (let cmdList =
            map (\<lambda>(field, descr). ''`'' @ field @ ''` '' @ descr) (dict_items (Fields thisTable))
          @ (case PrimaryKey thisTable of
               None \<Rightarrow> []
             | Some (PKName k) \<Rightarrow> [''PRIMARY KEY ( `'' @ k @ ''` )'']
             | Some (PKList fs) \<Rightarrow>
                 [''PRIMARY KEY ( '' @ join '', '' (map (\<lambda>f. ''`'' @ f @ ''`'') fs) @ '' )''])
          @ map (\<lambda>(index, fs). ''INDEX `'' @ index @ ''` ( `'' @ join ''`, `'' fs @ ''` )'')
              (dict_items (Indexes thisTable))
          @ map (\<lambda>(index, fs). ''UNIQUE INDEX `'' @ index @ ''` ( `'' @ join ''`, `'' fs @ ''` )'')
              (dict_items (UniqueIndexes thisTable))
          @ map (\<lambda>(key, auxTable). ''FOREIGN KEY ( `'' @ key @ ''` ) REFERENCES `''
                    @ forTable_of auxTable @ ''` ( `'' @ forKey_of key auxTable
                    @ ''` ) ON DELETE RESTRICT'')
              (dict_items (ForeignKeys thisTable));
          engine = (case Engine thisTable of None \<Rightarrow> ''InnoDB'' | Some e \<Rightarrow> e);
          charset = (case Charset thisTable of None \<Rightarrow> ''latin1'' | Some c \<Rightarrow> c)
      in ''CREATE TABLE `'' @ table @ ''` ('' @ [CHR 0x0A] @ join ('','' @ [CHR 0x0A]) cmdList
           @ [CHR 0x0A] @ '') ENGINE='' @ engine @ '' DEFAULT CHARSET='' @ charset)"

text \<open>The body of the creation loop for one table: the existence check, then the
  \<open>CREATE TABLE\<close> statement.\<close>

definition create_table ::
  "env \<Rightarrow> mysql \<Rightarrow> thid \<Rightarrow> tabledict \<Rightarrow> bool \<Rightarrow> string \<Rightarrow> world \<Rightarrow> (error + unit) \<times> world" where
  "create_table env self me tableDict force table w =
     (case checkTable env self me table force w of
        (Inl e, w1) \<Rightarrow> (Inl e, w1)
      | (Inr u, w1) \<Rightarrow>
          (case map_of tableDict table of
             None \<Rightarrow> (Inl (Raised ''KeyError''), w1)
           | Some thisTable \<Rightarrow>
               (case update env self me (create_cmd table thisTable) w1 of
                  (Inl e, w2) \<Rightarrow> (Inl e, w2)
                | (Inr r, w2) \<Rightarrow> (Inr (), w2))))"

fun create_batch ::
  "env \<Rightarrow> mysql \<Rightarrow> thid \<Rightarrow> tabledict \<Rightarrow> bool \<Rightarrow> string list \<Rightarrow> world \<Rightarrow> (error + unit) \<times> world" where
  "create_batch env self me tableDict force [] w = (Inr (), w)"
| "create_batch env self me tableDict force (table # rest) w =
     (case create_table env self me tableDict force table w of
        (Inl e, w1) \<Rightarrow> (Inl e, w1)
      | (Inr u, w1) \<Rightarrow> create_batch env self me tableDict force rest w1)"

fun create_batches ::
  "env \<Rightarrow> mysql \<Rightarrow> thid \<Rightarrow> tabledict \<Rightarrow> bool \<Rightarrow> string list list \<Rightarrow> world \<Rightarrow> (error + unit) \<times> world" where
  "create_batches env self me tableDict force [] w = (Inr (), w)"
| "create_batches env self me tableDict force (tableList # rest) w =
     (case create_batch env self me tableDict force tableList w of
        (Inl e, w1) \<Rightarrow> (Inl e, w1)
      | (Inr u, w1) \<Rightarrow> create_batches env self me tableDict force rest w1)"

text \<open>The resolution of the creation order, as \<open>_createTables\<close> starts it.\<close>

definition resolve_order :: "tabledict \<Rightarrow> error + string list list \<times> string list" where
  "resolve_order tableDict = extract_loop tableDict [[]] [] 0 True (map fst tableDict)"

definition createTables ::
  "env \<Rightarrow> mysql \<Rightarrow> thid \<Rightarrow> tabledict \<Rightarrow> bool \<Rightarrow> world \<Rightarrow> (error + unit) \<times> world" where
  "createTables env self me tableDict force w =
     (if map fst tableDict = [] then (Inr (), w)
      else (case missing_fields tableDict of
              Some e \<Rightarrow> (Inl e, w)
            | None \<Rightarrow>
                (case resolve_order tableDict of
                   Inl e \<Rightarrow> (Inl e, w)
                 | Inr (tableCreationList, tableList) \<Rightarrow>
                     (if tableList \<noteq> []
                      then (Inl (S_ERROR EMYSQL (''Recursive Foreign Keys in '' @ join '', '' tableList)), w)
                      else create_batches env self me tableDict force tableCreationList w))))"

text \<open>A table with the given fields and foreign keys and nothing else.\<close>

definition tbl :: "(string \<times> string) list \<Rightarrow> (string \<times> string) list option \<Rightarrow> tabledesc" where
  "tbl fs fks = \<lparr>Fields = Some fs, ForeignKeys = fks, PrimaryKey = None, Indexes = None,
                 UniqueIndexes = None, Engine = None, Charset = None\<rparr>"

definition tables_ABC :: tabledict where
  "tables_ABC = [(''C'', tbl [(''id'', ''INTEGER''), (''b'', ''INTEGER'')] (Some [(''b'', ''B.id'')])),
                 (''A'', tbl [(''id'', ''INTEGER'')] None),
                 (''B'', tbl [(''id'', ''INTEGER''), (''a'', ''INTEGER'')] (Some [(''a'', ''A.id'')]))]"

definition tables_XY :: tabledict where
  "tables_XY = [(''X'', tbl [(''id'', ''INTEGER''), (''y'', ''INTEGER'')] (Some [(''y'', ''Y.id'')])),
                (''Y'', tbl [(''id'', ''INTEGER''), (''x'', ''INTEGER'')] (Some [(''x'', ''X.id'')]))]"





text \<open>A table is ready for extraction when the target table of each of its foreign
  keys is among the tables extracted so far (a table with no foreign keys always is).\<close>

definition ready :: "tabledict \<Rightarrow> string list \<Rightarrow> string \<Rightarrow> bool" where
  "ready tableDict extractedTables table =
     (case map_of tableDict table of
        None \<Rightarrow> False
      | Some thisTable \<Rightarrow>
          list_all (\<lambda>(key, auxTable). forTable_of auxTable \<in> set extractedTables)
            (dict_items (ForeignKeys thisTable)))"

text \<open>The tables of the dictionary that are not in a list.\<close>

definition not_yet :: "tabledict \<Rightarrow> string list \<Rightarrow> string list" where
  "not_yet tableDict extractedTables = filter (\<lambda>t. t \<notin> set extractedTables) (map fst tableDict)"

text \<open>A server on which \<open>SHOW TABLES\<close> always lists the one table \<open>A\<close>, and which accepts
  every statement.\<close>

definition env_has_A :: env where
  "env_has_A = env_ok\<lparr>drv_execute := (\<lambda>tr c cmd.
       if cmd = ''SHOW TABLES''
       then Inr \<lparr>rowcount = 1, fetched = [[PStr ''A'']], lastrowid = 0\<rparr>
       else Inr \<lparr>rowcount = 0, fetched = [], lastrowid = 0\<rparr>)\<rparr>"

text \<open>The statements of a trace, oldest first.\<close>

fun statements :: "event list \<Rightarrow> string list" where
  "statements [] = []"
| "statements (Execute c cmd # tr) = statements tr @ [cmd]"
| "statements (e # tr) = statements tr"

section \<open>Proofs: the connection pool\<close>

declare pool_getWithRetry.simps [simp del]


lemma log_event_fields [simp]:
  "spares (log_event e w) = spares w"
  "maxSpares (log_event e w) = maxSpares w"
  "assigned (log_event e w) = assigned w"
  "graceTime (log_event e w) = graceTime w"
  "lastClean (log_event e w) = lastClean w"
  "trace (log_event e w) = e # trace w"
  by (simp_all add: log_event_def)

lemma pool_execute_spares [simp]:
  "spares (snd (pool_execute env c cmd w)) = spares w"
  "maxSpares (snd (pool_execute env c cmd w)) = maxSpares w"
  "assigned (snd (pool_execute env c cmd w)) = assigned w"
  by (simp_all add: pool_execute_def Let_def split: sum.splits option.splits)

lemma pool_newConn_spares [simp]:
  "spares (snd (pool_newConn env w)) = spares w"
  "maxSpares (snd (pool_newConn env w)) = maxSpares w"
  "assigned (snd (pool_newConn env w)) = assigned w"
proof -
  obtain r w1 where e: "pool_execute env (length (trace w)) ''SET AUTOCOMMIT=1'' (log_event (Connect (length (trace w))) w) = (r, w1)"
    by (cases "pool_execute env (length (trace w)) ''SET AUTOCOMMIT=1'' (log_event (Connect (length (trace w))) w)")
  have s: "spares w1 = spares w" "maxSpares w1 = maxSpares w" "assigned w1 = assigned w"
    using pool_execute_spares [of env "length (trace w)" "''SET AUTOCOMMIT=1''" "log_event (Connect (length (trace w))) w"]
    by (simp_all add: e)
  show "spares (snd (pool_newConn env w)) = spares w"
    "maxSpares (snd (pool_newConn env w)) = maxSpares w"
    "assigned (snd (pool_newConn env w)) = assigned w"
    using s by (simp_all add: pool_newConn_def Let_def e split: option.splits sum.splits)
qed

lemma pool_innerGet_spares:
  "length (spares (snd (pool_innerGet env me w))) \<le> length (spares w)"
  "maxSpares (snd (pool_innerGet env me w)) = maxSpares w"
proof -
  obtain r w1 where e: "pool_newConn env w = (r, w1)" by (cases "pool_newConn env w")
  have s: "spares w1 = spares w" "maxSpares w1 = maxSpares w"
    using pool_newConn_spares [of env w] by (simp_all add: e)
  show "length (spares (snd (pool_innerGet env me w))) \<le> length (spares w)"
    using s by (simp add: pool_innerGet_def Let_def e split: option.splits sum.splits prod.splits)
  show "maxSpares (snd (pool_innerGet env me w)) = maxSpares w"
    using s by (simp add: pool_innerGet_def Let_def e split: option.splits sum.splits prod.splits)
qed

lemma pool_pop_bound: "spare_bound w \<Longrightarrow> spare_bound (pool_pop t w)"
  by (simp add: pool_pop_def spare_bound_def Let_def split: option.splits)

lemma pool_pop_maxSpares [simp]: "maxSpares (pool_pop t w) = maxSpares w"
  by (simp add: pool_pop_def Let_def split: option.splits)

lemma clean_loop_bound: "spare_bound w \<Longrightarrow> spare_bound (clean_loop env now ts w)"
  by (induction ts arbitrary: w) (auto simp: Let_def pool_pop_bound split: option.splits)

lemma pool_clean_bound: "spare_bound w \<Longrightarrow> spare_bound (pool_clean env now w)"
proof -
  assume b: "spare_bound w"
  have "spare_bound (w\<lparr>lastClean := x\<rparr>)" for x using b by (simp add: spare_bound_def)
  then show ?thesis by (simp add: pool_clean_def Let_def clean_loop_bound)
qed


lemma pool_getWithRetry_Suc:
  "pool_getWithRetry env (Suc depth) db tot lft me w =
     (case retry_step env db tot lft me w of
        (Inl r, w1) \<Rightarrow> (r, w1)
      | (Inr lft1, w1) \<Rightarrow> pool_getWithRetry env depth db tot lft1 me w1)"
proof -
  define w1 where "w1 = (if 5 * (tot - lft) > 0 then log_event (Sleep (5 * (tot - lft))) (log_event (Attempt tot lft) w) else log_event (Attempt tot lft) w)"
  obtain r w2 where ig: "pool_innerGet env me w1 = (r, w2)" by (cases "pool_innerGet env me w1")
  show ?thesis
    unfolding pool_getWithRetry.simps retry_step_def Let_def w1_def [symmetric] ig
    by (simp add: pool_ping_def pool_select_db_def split: sum.split prod.split option.split bool.split)
qed


lemma retry_step_spares:
  "length (spares (snd (retry_step env db tot lft me w))) \<le> length (spares w)
   \<and> maxSpares (snd (retry_step env db tot lft me w)) = maxSpares w"
proof -
  define w1 where "w1 = (if 5 * (tot - lft) > 0 then log_event (Sleep (5 * (tot - lft))) (log_event (Attempt tot lft) w) else log_event (Attempt tot lft) w)"
  have w1: "spares w1 = spares w" "maxSpares w1 = maxSpares w" by (simp_all add: w1_def)
  obtain r w2 where ig: "pool_innerGet env me w1 = (r, w2)" by (cases "pool_innerGet env me w1")
  have w2: "length (spares w2) \<le> length (spares w)" "maxSpares w2 = maxSpares w"
    using pool_innerGet_spares [of env me w1] w1 by (simp_all add: ig)
  show ?thesis
    unfolding retry_step_def Let_def w1_def [symmetric] ig using w2
    by (simp add: pool_ping_def pool_select_db_def split: sum.split prod.split option.split bool.split)
qed

lemma pool_getWithRetry_spares:
  "length (spares (snd (pool_getWithRetry env depth db tot lft me w))) \<le> length (spares w)
   \<and> maxSpares (snd (pool_getWithRetry env depth db tot lft me w)) = maxSpares w"
proof (induction depth arbitrary: lft w)
  case 0
  show ?case by (simp add: pool_getWithRetry.simps)
next
  case (Suc depth)
  obtain r w1 where st: "retry_step env db tot lft me w = (r, w1)"
    by (cases "retry_step env db tot lft me w")
  have w1: "length (spares w1) \<le> length (spares w)" "maxSpares w1 = maxSpares w"
    using retry_step_spares [of env db tot lft me w] by (simp_all add: st)
  show ?case
  proof (cases r)
    case (Inl res)
    then show ?thesis using w1 by (simp add: pool_getWithRetry_Suc st)
  next
    case (Inr lft1)
    then show ?thesis using w1 Suc.IH [of lft1 w1]
      by (simp add: pool_getWithRetry_Suc st)
  qed
qed

lemma pool_get_bound: "spare_bound w \<Longrightarrow> spare_bound (snd (pool_get env db retries me w))"
proof -
  assume "spare_bound w"
  then have b: "spare_bound (pool_clean env None w)" by (rule pool_clean_bound)
  show ?thesis
    using b pool_getWithRetry_spares [of env "recursionLimit env" db "max 0 (min MAXCONNECTRETRY retries)" "max 0 (min MAXCONNECTRETRY retries)" me "pool_clean env None w"]
    by (simp add: pool_get_def Let_def spare_bound_def)
qed

lemma pool_transaction_bound:
  "spare_bound w \<Longrightarrow> spare_bound (snd (pool_transaction env stmt failure db me w))"
proof -
  assume b: "spare_bound w"
  obtain r w1 where g: "pool_get env db 10 me w = (r, w1)" by (cases "pool_get env db 10 me w")
  have b1: "spare_bound w1" using pool_get_bound [OF b, of env db 10 me] by (simp add: g)
  show ?thesis
  proof (cases r)
    case (Inl e)
    then show ?thesis using b1 by (simp add: pool_transaction_def g)
  next
    case (Inr c)
    obtain r2 w2 where x: "pool_execute env c stmt w1 = (r2, w2)" by (cases "pool_execute env c stmt w1")
    have "spares w2 = spares w1" "maxSpares w2 = maxSpares w1"
      using pool_execute_spares [of env c stmt w1] by (simp_all add: x)
    then show ?thesis using b1 Inr by (simp add: pool_transaction_def g x spare_bound_def split: sum.split)
  qed
qed

text \<open>
  Claim C6. Releasing the connection assigned to a thread (\<open>__pop\<close>) appends it to the
  spare queue exactly when the queue is shorter than \<open>maxSpares\<close>, and closes it
  otherwise. The bound \<open>length spares \<le> maxSpares\<close> holds for a new pool and is kept by
  every operation of the pool: \<open>__pop\<close>, \<open>clean\<close>, \<open>__innerGet\<close>, \<open>get\<close> and the three
  transaction calls.
\<close>

theorem spare_queue_bounded:
  "(map_of (assigned w) t = Some (c, name, lastUse) \<longrightarrow>
      (if length (spares w) < maxSpares w
       then spares (pool_pop t w) = spares w @ [(c, name)] \<and> trace (pool_pop t w) = trace w
       else spares (pool_pop t w) = spares w \<and> trace (pool_pop t w) = Close c # trace w))
   \<and> spare_bound (pool_init grace tr)
   \<and> (spare_bound w \<longrightarrow>
        spare_bound (pool_pop t w)
      \<and> spare_bound (pool_clean env now w)
      \<and> spare_bound (snd (pool_innerGet env me w))
      \<and> spare_bound (snd (pool_get env db retries me w))
      \<and> spare_bound (snd (pool_transactionStart env db me w))
      \<and> spare_bound (snd (pool_transactionCommit env db me w))
      \<and> spare_bound (snd (pool_transactionRollback env db me w)))"
proof -
  have pop: "map_of (assigned w) t = Some (c, name, lastUse) \<longrightarrow>
      (if length (spares w) < maxSpares w
       then spares (pool_pop t w) = spares w @ [(c, name)] \<and> trace (pool_pop t w) = trace w
       else spares (pool_pop t w) = spares w \<and> trace (pool_pop t w) = Close c # trace w)"
    by (simp add: pool_pop_def Let_def)
  have init: "spare_bound (pool_init grace tr)"
    by (simp add: spare_bound_def pool_init_def)
  have inner: "spare_bound (snd (pool_innerGet env me w))" if "spare_bound w"
    using that pool_innerGet_spares [of env me w] by (simp add: spare_bound_def)
  show ?thesis
    using pop init inner
    by (simp add: pool_pop_bound pool_clean_bound pool_get_bound pool_transaction_bound
        pool_transactionStart_def pool_transactionCommit_def pool_transactionRollback_def)
qed

theorem spare_queue_bounded_witness:
  "map_of (assigned w_one) 1 = Some (0, ''db'', 0) \<and> spare_bound w_one
   \<and> spares (pool_pop 1 w_one) = [(0, ''db'')] \<and> trace (pool_pop 1 w_one) = []
   \<and> spare_bound (pool_pop 1 w_one)
   \<and> spare_bound (snd (pool_get (env_dead 3) ''db'' 10 1 w_one))
   \<and> map_of (assigned w_full) 1 = Some (0, ''db'', 0) \<and> spare_bound w_full
   \<and> spares (pool_pop 1 w_full) = replicate 10 (7, ''x'') \<and> trace (pool_pop 1 w_full) = [Close 0]
   \<and> spare_bound (pool_pop 1 w_full)"
proof -
  have one: "map_of (assigned w_one) 1 = Some (0, ''db'', 0)" "spare_bound w_one"
    "length (spares w_one) < maxSpares w_one" "spares w_one = []" "trace w_one = []"
    by (simp_all add: w_one_def pool_init_def spare_bound_def)
  have full: "map_of (assigned w_full) 1 = Some (0, ''db'', 0)" "spare_bound w_full"
    "\<not> length (spares w_full) < maxSpares w_full" "spares w_full = replicate 10 (7, ''x'')"
    "trace w_full = []"
    by (simp_all add: w_full_def pool_init_def spare_bound_def)
  show ?thesis
    using spare_queue_bounded [where w = w_one and t = 1 and c = 0 and name = "''db''" and lastUse = 0
        and env = "env_dead 3" and db = "''db''" and retries = 10 and me = 1]
      spare_queue_bounded [where w = w_full and t = 1 and c = 0 and name = "''db''" and lastUse = 0]
      one full
    by simp
qed

lemma attempts_of_Cons [simp]:
  "attempts_of (Attempt t l # tr) = Attempt t l # attempts_of tr"
  "attempts_of (Connect c # tr) = attempts_of tr"
  "attempts_of (Execute c cmd # tr) = attempts_of tr"
  "attempts_of (Commit c # tr) = attempts_of tr"
  "attempts_of (Ping c # tr) = attempts_of tr"
  "attempts_of (SelectDb c db # tr) = attempts_of tr"
  "attempts_of (Close c # tr) = attempts_of tr"
  "attempts_of (Sleep s # tr) = attempts_of tr"
  by (simp_all add: attempts_of_def is_Attempt_def)

lemma pool_pop_attempts [simp]: "attempts_of (trace (pool_pop t w)) = attempts_of (trace w)"
  by (simp add: pool_pop_def Let_def split: option.splits)

lemma clean_loop_attempts [simp]: "attempts_of (trace (clean_loop env now ts w)) = attempts_of (trace w)"
  by (induction ts arbitrary: w) (simp_all add: Let_def split: option.splits)

lemma pool_clean_attempts [simp]: "attempts_of (trace (pool_clean env now w)) = attempts_of (trace w)"
  by (simp add: pool_clean_def Let_def)

lemma innerGet_dead:
  "\<exists>c name w1. pool_innerGet (env_dead n) me w = (Inr (c, name, me), w1)
     \<and> attempts_of (trace w1) = attempts_of (trace w)"
  by (simp add: pool_innerGet_def pool_newConn_def pool_execute_def env_dead_def Let_def
      split: option.splits prod.splits)

lemma retry_step_dead:
  assumes "0 \<le> lft"
  shows "\<exists>w1. retry_step (env_dead n) db tot lft me w = (Inr lft, w1)
     \<and> attempts_of (trace w1) = Attempt tot lft # attempts_of (trace w)"
proof -
  define w1 where "w1 = (if 5 * (tot - lft) > 0 then log_event (Sleep (5 * (tot - lft))) (log_event (Attempt tot lft) w) else log_event (Attempt tot lft) w)"
  have a1: "attempts_of (trace w1) = Attempt tot lft # attempts_of (trace w)"
    by (simp add: w1_def)
  obtain c name w2 where ig: "pool_innerGet (env_dead n) me w1 = (Inr (c, name, me), w2)"
    and a2: "attempts_of (trace w2) = attempts_of (trace w1)"
    using innerGet_dead [of n me w1] by blast
  have p: "drv_ping (env_dead n) tr c = False" for tr by (simp add: env_dead_def)
  show ?thesis
    unfolding retry_step_def Let_def w1_def [symmetric] ig
    using assms a1 a2 by (simp add: pool_ping_def p)
qed

lemma getWithRetry_dead:
  "0 \<le> lft \<Longrightarrow>
   \<exists>w1. pool_getWithRetry (env_dead n) depth db tot lft me w = (Inl (Raised recursion_msg), w1)
     \<and> attempts_of (trace w1) = replicate depth (Attempt tot lft) @ attempts_of (trace w)"
proof (induction depth arbitrary: w)
  case 0
  show ?case by (simp add: pool_getWithRetry.simps)
next
  case (Suc depth)
  obtain w1 where st: "retry_step (env_dead n) db tot lft me w = (Inr lft, w1)"
    and a: "attempts_of (trace w1) = Attempt tot lft # attempts_of (trace w)"
    using retry_step_dead [OF Suc.prems] by blast
  obtain w2 where r: "pool_getWithRetry (env_dead n) depth db tot lft me w1 = (Inl (Raised recursion_msg), w2)"
    and a2: "attempts_of (trace w2) = replicate depth (Attempt tot lft) @ attempts_of (trace w1)"
    using Suc.IH [OF Suc.prems, of w1] by blast
  show ?case using a a2 by (simp add: pool_getWithRetry_Suc st r replicate_app_Cons_same)
qed

text \<open>
  Claim C1 says that a failed ping retries with \<open>retriesLeft - 1\<close>, so that \<open>get\<close> ends with
  a connection error after a number of attempts bounded by the retry count. The ping
  branch of \<open>__getWithRetry\<close> passes \<open>retriesLeft\<close> on unchanged. Against a server that
  accepts connections and never answers a ping, \<open>get\<close> makes one attempt per allowed
  level of recursion, whatever the retry count, each with the full \<open>retriesLeft\<close>, and
  leaves with the interpreter's recursion error instead of an error value.
\<close>

theorem ping_failure_retry_keeps_retriesLeft:
  "fst (pool_get (env_dead n) db retries me w) = Inl (Raised recursion_msg)
   \<and> attempts_of (trace (snd (pool_get (env_dead n) db retries me w))) =
       replicate n (Attempt (max 0 (min MAXCONNECTRETRY retries)) (max 0 (min MAXCONNECTRETRY retries)))
       @ attempts_of (trace w)"
proof -
  define r where "r = max 0 (min MAXCONNECTRETRY retries)"
  have r0: "0 \<le> r" by (simp add: r_def)
  obtain w1 where g: "pool_getWithRetry (env_dead n) n db r r me (pool_clean (env_dead n) None w) = (Inl (Raised recursion_msg), w1)"
    and a: "attempts_of (trace w1) = replicate n (Attempt r r) @ attempts_of (trace (pool_clean (env_dead n) None w))"
    using getWithRetry_dead [OF r0, of n n db r me "pool_clean (env_dead n) None w"] by blast
  have rl: "recursionLimit (env_dead n) = n" by (simp add: env_dead_def)
  show ?thesis
    unfolding pool_get_def Let_def r_def [symmetric] rl using a by (simp add: g)
qed

lemma pool_execute_backoff:
  "backoff_ok (trace w) \<Longrightarrow> backoff_ok (trace (snd (pool_execute env c cmd w)))"
  by (simp add: pool_execute_def Let_def split: sum.splits option.splits)

lemma pool_newConn_backoff:
  "backoff_ok (trace w) \<Longrightarrow> backoff_ok (trace (snd (pool_newConn env w)))"
proof -
  assume b: "backoff_ok (trace w)"
  have "backoff_ok (trace (snd (pool_execute env c cmd (log_event (Connect c) w))))" for c cmd
    using b by (intro pool_execute_backoff) simp
  then show ?thesis using b
    by (simp add: pool_newConn_def Let_def split: option.splits sum.splits prod.splits)
      (metis snd_conv)
qed

lemma pool_innerGet_backoff:
  "backoff_ok (trace w) \<Longrightarrow> backoff_ok (trace (snd (pool_innerGet env me w)))"
proof -
  assume b: "backoff_ok (trace w)"
  obtain r w1 where e: "pool_newConn env w = (r, w1)" by (cases "pool_newConn env w")
  have "backoff_ok (trace w1)" using pool_newConn_backoff [OF b, of env] by (simp add: e)
  then show ?thesis using b
    by (simp add: pool_innerGet_def Let_def e split: option.splits sum.splits prod.splits)
qed

lemma pool_pop_backoff: "backoff_ok (trace w) \<Longrightarrow> backoff_ok (trace (pool_pop t w))"
  by (simp add: pool_pop_def Let_def split: option.splits)

lemma clean_loop_backoff: "backoff_ok (trace w) \<Longrightarrow> backoff_ok (trace (clean_loop env now ts w))"
  by (induction ts arbitrary: w) (auto simp: Let_def pool_pop_backoff split: option.splits)

lemma pool_clean_backoff: "backoff_ok (trace w) \<Longrightarrow> backoff_ok (trace (pool_clean env now w))"
  by (simp add: pool_clean_def Let_def clean_loop_backoff)

lemma retry_step_backoff:
  assumes "backoff_ok (trace w)" "lft \<le> tot"
  shows "backoff_ok (trace (snd (retry_step env db tot lft me w)))
     \<and> (\<forall>l1. fst (retry_step env db tot lft me w) = Inr l1 \<longrightarrow> l1 \<le> tot)"
proof -
  define w1 where "w1 = (if 5 * (tot - lft) > 0 then log_event (Sleep (5 * (tot - lft))) (log_event (Attempt tot lft) w) else log_event (Attempt tot lft) w)"
  have w1: "backoff_ok (trace w1)" using assms by (simp add: w1_def)
  obtain r w2 where ig: "pool_innerGet env me w1 = (r, w2)" by (cases "pool_innerGet env me w1")
  have w2: "backoff_ok (trace w2)" using pool_innerGet_backoff [OF w1, of env me] by (simp add: ig)
  show ?thesis
    unfolding retry_step_def Let_def w1_def [symmetric] ig using w2 assms(2)
    by (simp add: pool_ping_def pool_select_db_def split: sum.split prod.split option.split bool.split)
qed

lemma pool_getWithRetry_backoff:
  "backoff_ok (trace w) \<Longrightarrow> lft \<le> tot \<Longrightarrow>
   backoff_ok (trace (snd (pool_getWithRetry env depth db tot lft me w)))"
proof (induction depth arbitrary: lft w)
  case 0
  then show ?case by (simp add: pool_getWithRetry.simps)
next
  case (Suc depth)
  obtain r w1 where st: "retry_step env db tot lft me w = (r, w1)"
    by (cases "retry_step env db tot lft me w")
  have w1: "backoff_ok (trace w1)" and l1: "\<forall>l1. r = Inr l1 \<longrightarrow> l1 \<le> tot"
    using retry_step_backoff [OF Suc.prems, of env db me] by (simp_all add: st)
  show ?case
  proof (cases r)
    case (Inl res)
    then show ?thesis using w1 by (simp add: pool_getWithRetry_Suc st)
  next
    case (Inr lft1)
    then show ?thesis using Suc.IH [of w1 lft1] w1 l1
      by (simp add: pool_getWithRetry_Suc st)
  qed
qed

text \<open>
  Claim C10. Every call of \<open>__getWithRetry\<close> made during an acquisition sleeps exactly
  \<open>5 * (totalRetries - retriesLeft)\<close> seconds before it tries (no sleep at all when that
  is 0, as in the first attempt of \<open>get\<close>, where \<open>retriesLeft = totalRetries\<close>). The
  rule holds for a call whose \<open>retriesLeft\<close> does not exceed \<open>totalRetries\<close>, as \<open>get\<close>
  calls it, and for all the calls it makes in turn.
\<close>

theorem retry_sleep_is_five_times_attempts_used:
  "(backoff_ok (trace w) \<longrightarrow> retriesLeft \<le> totalRetries \<longrightarrow>
      backoff_ok (trace (snd (pool_getWithRetry env depth db totalRetries retriesLeft me w))))
   \<and> (backoff_ok (trace w) \<longrightarrow> backoff_ok (trace (snd (pool_get env db retries me w))))"
  by (simp add: pool_getWithRetry_backoff pool_get_def Let_def pool_clean_backoff)

lemma pool_getWithRetry_numeral:
  "pool_getWithRetry env (numeral k) db tot lft me w =
     (case retry_step env db tot lft me w of
        (Inl r, w1) \<Rightarrow> (r, w1)
      | (Inr lft1, w1) \<Rightarrow> pool_getWithRetry env (pred_numeral k) db tot lft1 me w1)"
  by (simp add: numeral_eq_Suc pool_getWithRetry_Suc)

theorem retry_sleep_is_five_times_attempts_used_witness:
  "backoff_ok (trace (pool_init 600 []))
   \<and> rev (trace (snd (pool_get (env_down 1000) ''db'' 1 7 (pool_init 600 [])))) =
       [Attempt 1 1, Connect 1, Attempt 1 0, Sleep 5, Connect 4, Attempt 1 (- 1), Sleep 10, Connect 7]
   \<and> fst (pool_get (env_down 1000) ''db'' 1 7 (pool_init 600 [])) =
       Inl (S_ERROR EMYSQL (''Could not connect: (2003, '' @ [CHR 0x27] @ ''down'' @ [CHR 0x27] @ '')''))
   \<and> backoff_ok (trace (snd (pool_get (env_down 1000) ''db'' 1 7 (pool_init 600 []))))"
proof -
  have g: "pool_get (env_down 1000) ''db'' 1 7 (pool_init 600 []) =
     (Inl (S_ERROR EMYSQL (''Could not connect: (2003, '' @ [CHR 0x27] @ ''down'' @ [CHR 0x27] @ '')'')),
      (pool_init 600 [])\<lparr>lastClean := 0, trace := rev [Attempt 1 1, Connect 1, Attempt 1 0, Sleep 5, Connect 4, Attempt 1 (- 1), Sleep 10, Connect 7]\<rparr>)"
    by (simp add: pool_get_def pool_clean_def pool_init_def env_down_def env_dead_def Let_def
        MAXCONNECTRETRY_def pool_getWithRetry_numeral retry_step_def pool_innerGet_def
        pool_newConn_def log_event_def str_int_def str_nat.simps)
  show ?thesis
    using retry_sleep_is_five_times_attempts_used [where w = "pool_init 600 []" and env = "env_down 1000"
        and db = "''db''" and retries = 1 and me = 7]
    by (simp add: g) (simp add: pool_init_def)
qed

section \<open>Proofs: escaping, conditions and the helpers\<close>

lemmas eval_ok = escapeValues_def escapeString_def getConnection_def db0_def
  pool_get_def pool_clean_def pool_init_def env_ok_def w0_def env_dead_def Let_def
  MAXCONNECTRETRY_def pool_getWithRetry_numeral retry_step_def pool_innerGet_def
  pool_newConn_def pool_execute_def pool_ping_def pool_select_db_def log_event_def
  strip_def isspace_def startswith_def endswith_def

text \<open>
  Claim C7 says that \<open>_escapeValues\<close> returns one escaped output per input value, in
  input order. The branch for a boolean assigns \<open>inEscapeValues = [ str( value ) ]\<close> where
  the other branches append: the outputs of all the values before a boolean are lost.
  For every environment, the values \<open>[ s, b ]\<close> with \<open>s\<close> a string and \<open>b\<close> a boolean give
  the one output \<open>str( b )\<close>; against a server that accepts everything,
  \<open>[ 'a', True ]\<close> gives \<open>[ 'True' ]\<close>.
\<close>

theorem escapeValues_boolean_drops_earlier_outputs:
  "escapeValues env self me [Sc (PStr s), Sc (PBool b)] w =
     (case escapeString env self me (PStr s) w of
        (Inl e, w1) \<Rightarrow> (Inl e, w1)
      | (Inr r, w1) \<Rightarrow> (Inr [if b then ''True'' else ''False''], w1))
   \<and> fst (escapeValues env_ok db0 1 [Sc (PStr ''a''), Sc (PBool True)] w0) = Inr [''True'']"
proof
  show "escapeValues env self me [Sc (PStr s), Sc (PBool b)] w =
     (case escapeString env self me (PStr s) w of
        (Inl e, w1) \<Rightarrow> (Inl e, w1)
      | (Inr r, w1) \<Rightarrow> (Inr [if b then ''True'' else ''False''], w1))"
    by (simp add: escapeValues_def split: prod.split sum.split)
  show "fst (escapeValues env_ok db0 1 [Sc (PStr ''a''), Sc (PBool True)] w0) = Inr [''True'']"
    by (simp add: eval_ok)
qed

text \<open>
  Claim C2. The six helpers pass \<open>greater = None\<close> and \<open>smaller = None\<close> to
  \<open>buildCondition\<close>, whatever the caller gave: two calls that differ only in these two
  arguments return the same result and leave the same world, so they send the same
  statements.
\<close>

theorem helpers_ignore_greater_and_smaller:
  "getFields env self me tableName outFields condDict limit older newer timeStamp orderAttribute g1 s1 w
     = getFields env self me tableName outFields condDict limit older newer timeStamp orderAttribute g2 s2 w
   \<and> deleteEntries env self me tableName condDict limit older newer timeStamp orderAttribute g1 s1 w
     = deleteEntries env self me tableName condDict limit older newer timeStamp orderAttribute g2 s2 w
   \<and> updateFields env self me tableName fs vs condDict limit updateDict older newer timeStamp
        orderAttribute g1 s1 w
     = updateFields env self me tableName fs vs condDict limit updateDict older newer timeStamp
        orderAttribute g2 s2 w
   \<and> countEntries env self me tableName condDict older newer timeStamp g1 s1 w
     = countEntries env self me tableName condDict older newer timeStamp g2 s2 w
   \<and> getCounters env self me tableName attrList condDict older newer timeStamp g1 s1 w
     = getCounters env self me tableName attrList condDict older newer timeStamp g2 s2 w
   \<and> getDistinctAttributeValues env self me tableName attr condDict older newer timeStamp g1 s1 w
     = getDistinctAttributeValues env self me tableName attr condDict older newer timeStamp g2 s2 w"
  by (simp only: getFields_def deleteEntries_def updateFields_def countEntries_def getCounters_def
      getDistinctAttributeValues_def simp_thms)

text \<open>The helper results that are error values.\<close>

lemma checkFields_mismatch:
  "length fs \<noteq> length vs \<Longrightarrow>
   checkFields (Some fs) (Some vs) = Inl (S_ERROR EMYSQL ''Mismatch between inFields and inValues.'')"
  by (simp add: checkFields_def)

text \<open>
  Claim C9, amended. When the list of fields and the list of values differ in length,
  \<open>insertFields\<close> returns an error value and leaves the world as it was: no statement
  is sent. \<open>updateFields\<close> does the same when \<open>updateFields\<close> is not empty or \<open>updateDict\<close>
  is given and not empty. With an empty \<open>updateFields\<close> and no \<open>updateDict\<close> its first
  test returns success with 0 rows before the lengths are compared, again with no
  statement sent.
\<close>

theorem arity_mismatch_is_an_error_without_sql:
  assumes "length fs \<noteq> length vs"
  shows "(\<exists>msg. insertFields env self me tableName (Some fs) (Some vs) inDict w
                  = (Inl (S_ERROR EMYSQL msg), w))
       \<and> (fs \<noteq> [] \<or> (updateDict \<noteq> None \<and> updateDict \<noteq> Some []) \<longrightarrow>
            (\<exists>msg. updateFields env self me tableName (Some fs) (Some vs) condDict limit updateDict
                      older newer timeStamp orderAttribute g s w
                    = (Inl (S_ERROR EMYSQL msg), w)))
       \<and> (fs = [] \<and> (updateDict = None \<or> updateDict = Some []) \<longrightarrow>
            updateFields env self me tableName (Some fs) (Some vs) condDict limit updateDict
              older newer timeStamp orderAttribute g s w
            = (Inr (0, None), w))"
proof (intro conjI impI)
  show "\<exists>msg. insertFields env self me tableName (Some fs) (Some vs) inDict w
                  = (Inl (S_ERROR EMYSQL msg), w)"
    by (cases "nonempty (quotedList (Some [tableName]))")
      (simp_all add: insertFields_def checkFields_mismatch [OF assms])
next
  assume "fs \<noteq> [] \<or> (updateDict \<noteq> None \<and> updateDict \<noteq> Some [])"
  then show "\<exists>msg. updateFields env self me tableName (Some fs) (Some vs) condDict limit updateDict
                      older newer timeStamp orderAttribute g s w
                    = (Inl (S_ERROR EMYSQL msg), w)"
    by (cases "nonempty (quotedList (Some [tableName]))")
      (auto simp add: updateFields_def checkFields_mismatch [OF assms])
next
  assume "fs = [] \<and> (updateDict = None \<or> updateDict = Some [])"
  then show "updateFields env self me tableName (Some fs) (Some vs) condDict limit updateDict
              older newer timeStamp orderAttribute g s w
            = (Inr (0, None), w)"
    by (auto simp add: updateFields_def)
qed

theorem arity_mismatch_is_an_error_without_sql_witness:
  "length [Sc (PStr ''name''), Sc (PStr ''count'')] \<noteq> length [Sc (PStr ''a'')]
   \<and> insertFields env_ok db0 1 (Sc (PStr ''t'')) (Some [Sc (PStr ''name''), Sc (PStr ''count'')])
        (Some [Sc (PStr ''a'')]) None w0
      = (Inl (S_ERROR EMYSQL ''Mismatch between inFields and inValues.''), w0)
   \<and> updateFields env_ok db0 1 (Sc (PStr ''t'')) (Some [Sc (PStr ''name''), Sc (PStr ''count'')])
        (Some [Sc (PStr ''a'')]) None (Sc (PBool False)) None (Sc PNone) (Sc PNone) (Sc PNone) (Sc PNone)
        None None w0
      = (Inl (S_ERROR EMYSQL ''Mismatch between updateFields and updateValues.''), w0)
   \<and> length ([] :: pyval list) \<noteq> length [Sc (PStr ''a'')]
   \<and> updateFields env_ok db0 1 (Sc (PStr ''t'')) (Some []) (Some [Sc (PStr ''a'')]) None
        (Sc (PBool False)) None (Sc PNone) (Sc PNone) (Sc PNone) (Sc PNone) None None w0
      = (Inr (0, None), w0)"
  using arity_mismatch_is_an_error_without_sql [where fs = "[Sc (PStr ''name''), Sc (PStr ''count'')]"
      and vs = "[Sc (PStr ''a'')]" and env = env_ok and self = db0 and me = 1
      and tableName = "Sc (PStr ''t'')" and inDict = None and w = w0 and updateDict = None
      and condDict = None and limit = "Sc (PBool False)" and older = "Sc PNone" and newer = "Sc PNone"
      and timeStamp = "Sc PNone" and orderAttribute = "Sc PNone" and g = None and s = None]
    arity_mismatch_is_an_error_without_sql [where fs = "[]"
      and vs = "[Sc (PStr ''a'')]" and env = env_ok and self = db0 and me = 1
      and tableName = "Sc (PStr ''t'')" and inDict = None and w = w0 and updateDict = None
      and condDict = None and limit = "Sc (PBool False)" and older = "Sc PNone" and newer = "Sc PNone"
      and timeStamp = "Sc PNone" and orderAttribute = "Sc PNone" and g = None and s = None]
  by (simp add: insertFields_def updateFields_def quotedList_def checkFields_def)

text \<open>
  Claim C9 as stated fails on \<open>updateFields\<close> with an empty list of fields, one value and
  no \<open>updateDict\<close>: the lengths differ and the result is success with 0 rows.
\<close>

theorem updateFields_empty_fields_counterexample:
  "length ([] :: pyval list) \<noteq> length [Sc (PInt 1)]
   \<and> updateFields env_ok db0 1 (Sc (PStr ''t'')) (Some []) (Some [Sc (PInt 1)]) None
        (Sc (PBool False)) None (Sc PNone) (Sc PNone) (Sc PNone) (Sc PNone) None None w0
      = (Inr (0, None), w0)"
  by (simp add: updateFields_def)

lemma order_loop_bad_direction:
  "order_loop [Sc (PStr ''a:FOO'')] [] = Inl (Raised ''Invalid orderAttribute argument'')"
  by (simp add: quotedList_def upper_def upper_char_def Let_def)

lemma buildCondition_bad_direction:
  "buildCondition env self me None older newer (Sc PNone) (Sc (PStr ''a:FOO'')) limit None None offset w
     = (Inl (Raised ''Invalid orderAttribute argument''), w)"
  "buildCondition env self me (Some []) older newer (Sc PNone) (Sc (PStr ''a:FOO'')) limit None None offset w
     = (Inl (Raised ''Invalid orderAttribute argument''), w)"
  by (simp_all add: buildCondition_def time_bounds_def order_loop_bad_direction del: order_loop.simps)

lemma buildCondition_bad_timeStamp:
  "buildCondition env self me None older newer (Sc (PInt 5)) orderAttribute limit None None offset w
     = (Inl (Raised ''Invalid timeStamp argument''), w)"
  by (simp add: buildCondition_def time_bounds_def quotedList_def)

lemma escapeValues_True: "escapeValues env self me [Sc (PBool True)] w = (Inr [''True''], w)"
  by (simp add: escapeValues_def)

text \<open>
  Claim C5 as stated fails on \<open>buildCondition\<close>, which is itself a public method and
  signals a validation failure by raising an exception (its documentation says so): an
  order attribute \<open>'a:FOO'\<close> raises \<open>Invalid orderAttribute argument\<close>.
\<close>

theorem buildCondition_raises_counterexample:
  "buildCondition env_ok db0 1 None (Sc PNone) (Sc PNone) (Sc PNone) (Sc (PStr ''a:FOO''))
     (Sc (PBool False)) None None (Sc PNone) w0
   = (Inl (Raised ''Invalid orderAttribute argument''), w0)"
  by (rule buildCondition_bad_direction)

text \<open>
  Claim C5, as amended: each of the six helpers calls \<open>buildCondition\<close> inside \<open>try\<close>;
  whenever that call raises, the helper returns an error value, and the exception does
  not leave the helper.
  \<open>getFields\<close>, \<open>deleteEntries\<close>, \<open>countEntries\<close>, \<open>getCounters\<close> and
  \<open>getDistinctAttributeValues\<close> make the call in the world they are given;
  \<open>updateFields\<close> makes it after its own checks and the escaping of the new values, and
  returns the text of the exception as the error.
\<close>

theorem helpers_return_condition_failures_as_errors:
  "(buildCondition env self me (Some (dict_items condDict)) older newer timeStamp orderAttribute
        (fst (split_limit limit)) None None (snd (split_limit limit)) w = (Inl x, wa)
      \<longrightarrow> (\<exists>msg. fst (getFields env self me tableName outFields condDict limit older newer timeStamp
                        orderAttribute g s w) = Inl (S_ERROR EMYSQL msg)))
   \<and> (buildCondition env self me condDict older newer timeStamp orderAttribute limit None None (Sc PNone) w
        = (Inl x, wa)
      \<longrightarrow> (\<exists>msg. fst (deleteEntries env self me tableName condDict limit older newer timeStamp
                        orderAttribute g s w) = Inl (S_ERROR EMYSQL msg)))
   \<and> (buildCondition env self me condDict older newer timeStamp (Sc PNone) (Sc (PBool False)) None None
        (Sc PNone) w = (Inl x, wa)
      \<longrightarrow> (\<exists>msg. fst (countEntries env self me tableName condDict older newer timeStamp g s w)
                   = Inl (S_ERROR EMYSQL msg))
        \<and> (\<exists>msg. fst (getCounters env self me tableName attrList condDict older newer timeStamp g s w)
                   = Inl (S_ERROR EMYSQL msg))
        \<and> (\<exists>msg. fst (getDistinctAttributeValues env self me tableName attr condDict older newer
                        timeStamp g s w) = Inl (S_ERROR EMYSQL msg)))
   \<and> ((\<not> ((fs = None \<or> fs = Some []) \<and> (updateDict = None \<or> updateDict = Some [])))
        \<and> nonempty (quotedList (Some [tableName])) = Some table
        \<and> checkFields fs vs = Inr ()
        \<and> escapeValues env self me
             ((if fs = None then [] else list_items vs) @ map snd (dict_items updateDict)) w
            = (Inr escaped, wb)
        \<and> list_all is_PStr (list_items fs @ map fst (dict_items updateDict))
        \<and> buildCondition env self me condDict older newer timeStamp orderAttribute limit None None
             (Sc PNone) wb = (Inl x, wc)
      \<longrightarrow> updateFields env self me tableName fs vs condDict limit updateDict older newer timeStamp
             orderAttribute g s w = (Inl (S_ERROR EMYSQL (message x)), wc))"
proof (intro conjI impI)
  assume "buildCondition env self me (Some (dict_items condDict)) older newer timeStamp orderAttribute
        (fst (split_limit limit)) None None (snd (split_limit limit)) w = (Inl x, wa)"
  then show "\<exists>msg. fst (getFields env self me tableName outFields condDict limit older newer timeStamp
                        orderAttribute g s w) = Inl (S_ERROR EMYSQL msg)"
    by (simp add: getFields_def split: option.split sum.split)
next
  assume "buildCondition env self me condDict older newer timeStamp orderAttribute limit None None (Sc PNone) w
        = (Inl x, wa)"
  then show "\<exists>msg. fst (deleteEntries env self me tableName condDict limit older newer timeStamp
                        orderAttribute g s w) = Inl (S_ERROR EMYSQL msg)"
    by (simp add: deleteEntries_def split: option.split)
next
  assume b: "buildCondition env self me condDict older newer timeStamp (Sc PNone) (Sc (PBool False)) None None
        (Sc PNone) w = (Inl x, wa)"
  show "\<exists>msg. fst (countEntries env self me tableName condDict older newer timeStamp g s w)
                   = Inl (S_ERROR EMYSQL msg)"
    using b by (simp add: countEntries_def split: option.split)
  show "\<exists>msg. fst (getCounters env self me tableName attrList condDict older newer timeStamp g s w)
                   = Inl (S_ERROR EMYSQL msg)"
    using b by (simp add: getCounters_def split: option.split)
  show "\<exists>msg. fst (getDistinctAttributeValues env self me tableName attr condDict older newer
                        timeStamp g s w) = Inl (S_ERROR EMYSQL msg)"
    using b by (simp add: getDistinctAttributeValues_def split: option.split)
next
  assume "(\<not> ((fs = None \<or> fs = Some []) \<and> (updateDict = None \<or> updateDict = Some [])))
        \<and> nonempty (quotedList (Some [tableName])) = Some table
        \<and> checkFields fs vs = Inr ()
        \<and> escapeValues env self me
             ((if fs = None then [] else list_items vs) @ map snd (dict_items updateDict)) w
            = (Inr escaped, wb)
        \<and> list_all is_PStr (list_items fs @ map fst (dict_items updateDict))
        \<and> buildCondition env self me condDict older newer timeStamp orderAttribute limit None None
             (Sc PNone) wb = (Inl x, wc)"
  then show "updateFields env self me tableName fs vs condDict limit updateDict older newer timeStamp
             orderAttribute g s w = (Inl (S_ERROR EMYSQL (message x)), wc)"
    by (simp add: updateFields_def Let_def)
qed

theorem helpers_return_condition_failures_as_errors_witness:
  "fst (getFields env_ok db0 1 (Sc (PStr ''t'')) None None (Sc (PBool False)) (Sc PNone) (Sc PNone)
          (Sc PNone) (Sc (PStr ''a:FOO'')) None None w0)
     = Inl (S_ERROR EMYSQL ''Invalid orderAttribute argument'')
   \<and> fst (deleteEntries env_ok db0 1 (Sc (PStr ''t'')) None (Sc (PBool False)) (Sc PNone) (Sc PNone)
          (Sc PNone) (Sc (PStr ''a:FOO'')) None None w0)
     = Inl (S_ERROR EMYSQL ''Invalid orderAttribute argument'')
   \<and> updateFields env_ok db0 1 (Sc (PStr ''t'')) (Some [Sc (PStr ''f'')]) (Some [Sc (PBool True)]) None
          (Sc (PBool False)) None (Sc PNone) (Sc PNone) (Sc PNone) (Sc (PStr ''a:FOO'')) None None w0
     = (Inl (S_ERROR EMYSQL ''Invalid orderAttribute argument''), w0)
   \<and> fst (countEntries env_ok db0 1 (Sc (PStr ''t'')) None (Sc PNone) (Sc PNone) (Sc (PInt 5)) None None w0)
     = Inl (S_ERROR EMYSQL ''Invalid timeStamp argument'')
   \<and> fst (getCounters env_ok db0 1 (Sc (PStr ''t'')) (Some [Sc (PStr ''a'')]) None (Sc PNone) (Sc PNone)
          (Sc (PInt 5)) None None w0)
     = Inl (S_ERROR EMYSQL ''Invalid timeStamp argument'')
   \<and> fst (getDistinctAttributeValues env_ok db0 1 (Sc (PStr ''t'')) (Sc (PStr ''a'')) None (Sc PNone)
          (Sc PNone) (Sc (PInt 5)) None None w0)
     = Inl (S_ERROR EMYSQL ''Invalid timeStamp argument'')"
proof -
  have q: "nonempty (quotedList (Some [Sc (PStr ''t'')])) = Some ''`t`''"
    by (simp add: quotedList_def)
  have c: "checkFields (Some [Sc (PStr ''f'')]) (Some [Sc (PBool True)]) = Inr ()"
    by (simp add: checkFields_def)
  have sl: "split_limit (Sc (PBool False)) = (Sc (PBool False), Sc PNone)"
    by (simp add: split_limit_def)
  note t = helpers_return_condition_failures_as_errors [where env = env_ok and self = db0 and me = 1
      and tableName = "Sc (PStr ''t'')" and condDict = None and limit = "Sc (PBool False)"
      and older = "Sc PNone" and newer = "Sc PNone" and timeStamp = "Sc PNone"
      and orderAttribute = "Sc (PStr ''a:FOO'')" and w = w0 and wa = w0 and wb = w0 and wc = w0
      and x = "Raised ''Invalid orderAttribute argument''" and outFields = None and g = None and s = None
      and fs = "Some [Sc (PStr ''f'')]" and vs = "Some [Sc (PBool True)]" and updateDict = None
      and table = "''`t`''" and escaped = "[''True'']"]
  note u = helpers_return_condition_failures_as_errors [where env = env_ok and self = db0 and me = 1
      and tableName = "Sc (PStr ''t'')" and condDict = None
      and older = "Sc PNone" and newer = "Sc PNone" and timeStamp = "Sc (PInt 5)"
      and w = w0 and wa = w0 and x = "Raised ''Invalid timeStamp argument''" and g = None and s = None
      and attrList = "Some [Sc (PStr ''a'')]" and attr = "Sc (PStr ''a'')"]
  have a: "fst (getFields env_ok db0 1 (Sc (PStr ''t'')) None None (Sc (PBool False)) (Sc PNone) (Sc PNone)
          (Sc PNone) (Sc (PStr ''a:FOO'')) None None w0)
     = Inl (S_ERROR EMYSQL ''Invalid orderAttribute argument'')
   \<and> fst (deleteEntries env_ok db0 1 (Sc (PStr ''t'')) None (Sc (PBool False)) (Sc PNone) (Sc PNone)
          (Sc PNone) (Sc (PStr ''a:FOO'')) None None w0)
     = Inl (S_ERROR EMYSQL ''Invalid orderAttribute argument'')
   \<and> updateFields env_ok db0 1 (Sc (PStr ''t'')) (Some [Sc (PStr ''f'')]) (Some [Sc (PBool True)]) None
          (Sc (PBool False)) None (Sc PNone) (Sc PNone) (Sc PNone) (Sc (PStr ''a:FOO'')) None None w0
     = (Inl (S_ERROR EMYSQL ''Invalid orderAttribute argument''), w0)"
    using t q c
    by (simp add: sl buildCondition_bad_direction escapeValues_True getFields_def deleteEntries_def
        del: nonempty.simps)
  have b: "fst (countEntries env_ok db0 1 (Sc (PStr ''t'')) None (Sc PNone) (Sc PNone) (Sc (PInt 5)) None None w0)
     = Inl (S_ERROR EMYSQL ''Invalid timeStamp argument'')
   \<and> fst (getCounters env_ok db0 1 (Sc (PStr ''t'')) (Some [Sc (PStr ''a'')]) None (Sc PNone) (Sc PNone)
          (Sc (PInt 5)) None None w0)
     = Inl (S_ERROR EMYSQL ''Invalid timeStamp argument'')
   \<and> fst (getDistinctAttributeValues env_ok db0 1 (Sc (PStr ''t'')) (Sc (PStr ''a'')) None (Sc PNone)
          (Sc PNone) (Sc (PInt 5)) None None w0)
     = Inl (S_ERROR EMYSQL ''Invalid timeStamp argument'')"
    using u q
    by (simp add: buildCondition_bad_timeStamp countEntries_def getCounters_def
        getDistinctAttributeValues_def quotedList_def)
  show ?thesis using a b by simp
qed

text \<open>
  Claim C4 says that the clauses of the \<open>WHERE\<close> family are joined with \<open>AND\<close> after
  one leading \<open>WHERE\<close>. The branch for \<open>older\<close> does not set the conjunction to \<open>AND\<close> as
  the branch for \<open>newer\<close> and the three loops do: when the \<open>older\<close> bound is the first
  clause, the clause after it is introduced by a second \<open>WHERE\<close>.
\<close>

theorem buildCondition_older_then_greater_repeats_WHERE:
  "fst (buildCondition env_ok db0 1 None (Sc (PStr ''x'')) (Sc PNone) (Sc (PStr ''ts'')) (Sc PNone)
          (Sc (PBool False)) (Some [(Sc (PStr ''g''), Sc (PInt 1))]) None (Sc PNone) w0)
   = Inr (''   WHERE `ts` < '' @ [CHR 0x22] @ ''x'' @ [CHR 0x22]
            @ '' WHERE `g` >= '' @ [CHR 0x22] @ ''1'' @ [CHR 0x22])"
  by (simp add: buildCondition_def time_bounds_def escape_first_def quotedList_def add_limit_def
      str_int_def str_nat.simps eval_ok)

section \<open>Proofs: the creation order of tables\<close>

lemma check_keys_ready:
  "check_keys td aux t d ks = Inr b \<Longrightarrow>
   b = list_all (\<lambda>(key, auxTable). forTable_of auxTable \<in> set aux) ks"
  by (induction ks) (auto split: if_splits option.splits)

lemma toBeExtracted_ready:
  assumes "map_of td t = Some d"
    and "(case ForeignKeys d of None \<Rightarrow> Inr True | Some ks \<Rightarrow> check_keys td aux t d ks) = Inr b"
  shows "b = ready td aux t"
proof (cases "ForeignKeys d")
  case None
  then show ?thesis using assms by (simp add: ready_def)
next
  case (Some ks)
  then show ?thesis using assms check_keys_ready [of td aux t d ks b] by (simp add: ready_def)
qed

lemma extract_round_result:
  "extract_round td aux i ts (ex0, tl0, tcl0) = Inr (ex1, tl1, tcl1) \<Longrightarrow> i < length tcl0 \<Longrightarrow>
   tcl1 = tcl0[i := tcl0 ! i @ filter (ready td aux) ts]
   \<and> tl1 = fold remove1 (filter (ready td aux) ts) tl0
   \<and> ex1 = (ex0 \<or> filter (ready td aux) ts \<noteq> [])"
proof (induction ts arbitrary: ex0 tl0 tcl0)
  case Nil
  then show ?case by simp
next
  case (Cons t ts)
  show ?case
  proof (cases "map_of td t")
    case None
    with Cons.prems show ?thesis by simp
  next
    case (Some d)
    obtain b where b: "(case ForeignKeys d of None \<Rightarrow> Inr True | Some ks \<Rightarrow> check_keys td aux t d ks) = Inr b"
      using Cons.prems Some by (auto split: sum.splits)
    have rb: "b = ready td aux t" using toBeExtracted_ready [OF Some b] .
    show ?thesis
    proof (cases b)
      case False
      then have r: "extract_round td aux i ts (ex0, tl0, tcl0) = Inr (ex1, tl1, tcl1)"
        using Cons.prems Some b by simp
      show ?thesis using Cons.IH [OF r Cons.prems(2)] False rb by simp
    next
      case True
      then have r: "extract_round td aux i ts (True, remove1 t tl0, tcl0[i := tcl0 ! i @ [t]]) = Inr (ex1, tl1, tcl1)"
        using Cons.prems Some b by (auto split: if_splits)
      have len: "i < length (tcl0[i := tcl0 ! i @ [t]])" using Cons.prems(2) by simp
      show ?thesis using Cons.IH [OF r len] True rb Cons.prems(2) by simp
    qed
  qed
qed

lemma fold_remove1_distinct:
  "distinct ys \<Longrightarrow> fold remove1 xs ys = filter (\<lambda>y. y \<notin> set xs) ys"
proof (induction xs arbitrary: ys)
  case Nil
  then show ?case by simp
next
  case (Cons x xs)
  have rm: "remove1 x ys = filter (\<lambda>y. x \<noteq> y) ys"
    using Cons.prems by (simp add: distinct_remove1_removeAll removeAll_filter_not_eq)
  have "fold remove1 xs (filter (\<lambda>y. x \<noteq> y) ys) = filter (\<lambda>y. y \<notin> set xs) (filter (\<lambda>y. x \<noteq> y) ys)"
    using Cons.IH [of "filter (\<lambda>y. x \<noteq> y) ys"] Cons.prems by simp
  then show ?case by (auto simp: rm intro: filter_cong)
qed

text \<open>The invariant of the \<open>while\<close> loop.\<close>

lemma extract_loop_invariant:
  "extract_loop td tcl aux i ex tls = Inr (tclF, tlsF) \<Longrightarrow> distinct (map fst td) \<Longrightarrow>
     tcl \<noteq> [] \<Longrightarrow> Suc i = length tcl \<Longrightarrow> aux = concat (butlast tcl) \<Longrightarrow>
     tls = not_yet td (concat tcl) \<Longrightarrow> tcl ! 0 = [] \<Longrightarrow>
     (\<forall>k. Suc k < length tcl \<longrightarrow>
        tcl ! Suc k = filter (ready td (concat (take (Suc k) tcl))) (not_yet td (concat (take (Suc k) tcl)))) \<Longrightarrow>
     (\<not> ex \<longrightarrow> (\<forall>t \<in> set tls. \<not> ready td (concat tcl) t)) \<Longrightarrow>
     (\<forall>k. Suc k < length tclF \<longrightarrow>
        tclF ! Suc k = filter (ready td (concat (take (Suc k) tclF))) (not_yet td (concat (take (Suc k) tclF))))
     \<and> tlsF = not_yet td (concat tclF)
     \<and> (tlsF \<noteq> [] \<longrightarrow> (\<forall>t \<in> set tlsF. \<not> ready td (concat tclF) t))
     \<and> tclF \<noteq> [] \<and> tclF ! 0 = []"
proof (induction td tcl aux i ex tls rule: extract_loop.induct)
  case (1 td tcl aux i ex tls)
  note loop = "1.prems"(1) and dist = "1.prems"(2) and ne = "1.prems"(3) and len = "1.prems"(4)
    and auxe = "1.prems"(5) and tlse = "1.prems"(6) and hd0 = "1.prems"(7) and bat = "1.prems"(8)
    and stk = "1.prems"(9)
  show ?case
  proof (cases "tls \<noteq> [] \<and> ex")
    case False
    then have "tclF = tcl" "tlsF = tls" using loop
      by (auto simp: extract_loop.simps [of td tcl aux i ex tls] split: if_splits)
    then show ?thesis using tlse bat stk False ne hd0 by auto
  next
    case True
    have i: "i < length tcl" using len by simp
    have lasti: "tcl ! i = last tcl"
      using ne len [symmetric] by (simp add: last_conv_nth)
    have aux1: "aux @ tcl ! i = concat tcl"
      using ne auxe lasti by (metis append_butlast_last_id concat.simps(1,2) concat_append append_Nil2)
    have unf: "extract_loop td tcl aux i ex tls =
        (case extract_round td (concat tcl) (i + 1) tls (False, tls, tcl @ [[]]) of
           Inl e \<Rightarrow> Inl e
         | Inr (e1, t1, c1) \<Rightarrow> extract_loop td c1 (concat tcl) (i + 1) e1 t1)"
      using True i aux1 unfolding extract_loop.simps [of td tcl aux i ex tls]
      by (simp split: sum.split prod.split)
    have "(case extract_round td (concat tcl) (i + 1) tls (False, tls, tcl @ [[]]) of
           Inl e \<Rightarrow> Inl e
         | Inr (e1, t1, c1) \<Rightarrow> extract_loop td c1 (concat tcl) (i + 1) e1 t1) = Inr (tclF, tlsF)"
      using loop by (simp only: unf)
    then obtain ex1 tl1 tcl1 where
      r: "extract_round td (concat tcl) (i + 1) tls (False, tls, tcl @ [[]]) = Inr (ex1, tl1, tcl1)"
      and l: "extract_loop td tcl1 (concat tcl) (i + 1) ex1 tl1 = Inr (tclF, tlsF)"
      by (auto split: sum.splits prod.splits)
    define B where "B = filter (ready td (concat tcl)) tls"
    have dt: "distinct tls"
      unfolding tlse not_yet_def using dist by (rule distinct_filter)
    have res: "tcl1 = tcl @ [B]" "tl1 = filter (\<lambda>t. \<not> ready td (concat tcl) t) tls" "ex1 = (B \<noteq> [])"
      using extract_round_result [OF r] len fold_remove1_distinct [OF dt, of "filter (ready td (concat tcl)) tls"]
      by (auto simp: B_def nth_append intro: filter_cong)
    have tl1: "tl1 = not_yet td (concat tcl1)"
      using res tlse by (auto simp: not_yet_def B_def intro: filter_cong)
    have batches: "\<forall>k. Suc k < length tcl1 \<longrightarrow>
        tcl1 ! Suc k = filter (ready td (concat (take (Suc k) tcl1))) (not_yet td (concat (take (Suc k) tcl1)))"
    proof (intro allI impI)
      fix k assume k: "Suc k < length tcl1"
      show "tcl1 ! Suc k = filter (ready td (concat (take (Suc k) tcl1))) (not_yet td (concat (take (Suc k) tcl1)))"
      proof (cases "Suc k < length tcl")
        case True
        then show ?thesis using bat res(1) by (simp add: nth_append)
      next
        case False
        then have "Suc k = length tcl" using k res(1) by simp
        then show ?thesis using res(1) tlse by (simp add: nth_append B_def)
      qed
    qed
    have stuck: "\<not> ex1 \<longrightarrow> (\<forall>t \<in> set tl1. \<not> ready td (concat tcl1) t)"
      using res by auto
    have r': "extract_round td (aux @ tcl ! i) (i + 1) tls (False, tls, tcl @ [[]]) = Inr (ex1, tl1, tcl1)"
      using r aux1 by simp
    have l': "extract_loop td tcl1 (aux @ tcl ! i) (i + 1) ex1 tl1 = Inr (tclF, tlsF)"
      using l aux1 by simp
    have ni: "\<not> \<not> i < length tcl" using i by simp
    have ne1: "tcl1 \<noteq> []" and len1: "Suc (i + 1) = length tcl1"
      and aux2: "aux @ tcl ! i = concat (butlast tcl1)"
      using res(1) len aux1 by simp_all
    have hd1: "tcl1 ! 0 = []" using res(1) ne hd0 by (simp add: nth_append)
    show ?thesis
      by (rule "1.IH" [OF True ni r' refl refl l' dist ne1 len1 aux2 tl1 hd1 batches stuck])
  qed
qed

lemma create_batches_concat:
  "create_batches env self me td force tcl w = create_batch env self me td force (concat tcl) w"
proof (induction tcl arbitrary: w)
  case Nil
  show ?case by simp
next
  case (Cons b bs)
  have app: "create_batch env self me td force (xs @ ys) v =
    (case create_batch env self me td force xs v of
       (Inl e, w1) \<Rightarrow> (Inl e, w1)
     | (Inr u, w1) \<Rightarrow> create_batch env self me td force ys w1)" for xs ys v
    by (induction xs arbitrary: v) (auto split: prod.splits sum.splits)
  show ?case using Cons.IH by (simp add: app split: prod.splits sum.splits)
qed


lemma sample_tables:
  "distinct (map fst tables_ABC)" "tables_ABC \<noteq> []" "missing_fields tables_ABC = None"
  "distinct (map fst tables_XY)" "tables_XY \<noteq> []" "missing_fields tables_XY = None"
  by (simp_all add: tables_ABC_def tables_XY_def tbl_def)

lemma resolve_order_ABC: "resolve_order tables_ABC = Inr ([[], [''A''], [''B''], [''C'']], [])"
  by code_simp

lemma resolve_order_XY: "resolve_order tables_XY = Inr ([[], []], [''X'', ''Y''])"
  by code_simp

text \<open>
  Claim C3. When the resolution of the order ends without a validation error, with
  the batches \<open>tableCreationList\<close> and the remaining tables \<open>tableList\<close>: the first
  batch is empty; every later batch holds exactly the ready tables among those not in
  an earlier batch, in the order of the dictionary, where a table is ready when the
  targets of all its foreign keys are in earlier batches; the remaining tables are
  those in no batch, and when some remain none of them is ready. \<open>_createTables\<close> then
  returns the error that names exactly the remaining tables, or creates the tables in
  the order of the batches. The tables \<open>A\<close>, \<open>B\<close> with a key to \<open>A\<close> and \<open>C\<close> with a key to
  \<open>B\<close> are created in the order \<open>A\<close>, \<open>B\<close>, \<open>C\<close>; \<open>X\<close> and \<open>Y\<close> with keys to each other
  give the error that names both.
\<close>

theorem creation_order_by_rounds:
  "(distinct (map fst td) \<and> resolve_order td = Inr (batches, remaining) \<longrightarrow>
      batches \<noteq> [] \<and> batches ! 0 = []
      \<and> (\<forall>k. Suc k < length batches \<longrightarrow>
            batches ! Suc k = filter (ready td (concat (take (Suc k) batches)))
                                (not_yet td (concat (take (Suc k) batches))))
      \<and> remaining = not_yet td (concat batches)
      \<and> (remaining \<noteq> [] \<longrightarrow> (\<forall>t \<in> set remaining. \<not> ready td (concat batches) t)))
   \<and> (td \<noteq> [] \<and> missing_fields td = None \<and> resolve_order td = Inr (batches, remaining) \<longrightarrow>
        createTables env self me td force w =
          (if remaining \<noteq> []
           then (Inl (S_ERROR EMYSQL (''Recursive Foreign Keys in '' @ join '', '' remaining)), w)
           else create_batch env self me td force (concat batches) w))
   \<and> createTables env self me tables_ABC force w
        = create_batch env self me tables_ABC force [''A'', ''B'', ''C''] w
   \<and> createTables env self me tables_XY force w
        = (Inl (S_ERROR EMYSQL ''Recursive Foreign Keys in X, Y''), w)"
proof (intro conjI impI)
  assume a: "distinct (map fst td) \<and> resolve_order td = Inr (batches, remaining)"
  have inv: "(\<forall>k. Suc k < length batches \<longrightarrow>
            batches ! Suc k = filter (ready td (concat (take (Suc k) batches)))
                                (not_yet td (concat (take (Suc k) batches))))
      \<and> remaining = not_yet td (concat batches)
      \<and> (remaining \<noteq> [] \<longrightarrow> (\<forall>t \<in> set remaining. \<not> ready td (concat batches) t))
      \<and> batches \<noteq> [] \<and> batches ! 0 = []"
    by (rule extract_loop_invariant [of td "[[]]" "[]" 0 True "map fst td" batches remaining])
      (use a in \<open>simp_all add: resolve_order_def not_yet_def\<close>)
  show "batches \<noteq> []" "batches ! 0 = []"
    "\<forall>k. Suc k < length batches \<longrightarrow>
            batches ! Suc k = filter (ready td (concat (take (Suc k) batches)))
                                (not_yet td (concat (take (Suc k) batches)))"
    "remaining = not_yet td (concat batches)"
    using inv by simp_all
  show "\<forall>t \<in> set remaining. \<not> ready td (concat batches) t" if "remaining \<noteq> []"
    using inv that by simp
next
  assume "td \<noteq> [] \<and> missing_fields td = None \<and> resolve_order td = Inr (batches, remaining)"
  then show "createTables env self me td force w =
          (if remaining \<noteq> []
           then (Inl (S_ERROR EMYSQL (''Recursive Foreign Keys in '' @ join '', '' remaining)), w)
           else create_batch env self me td force (concat batches) w)"
    by (simp add: createTables_def create_batches_concat)
next
  show "createTables env self me tables_ABC force w
        = create_batch env self me tables_ABC force [''A'', ''B'', ''C''] w"
    by (simp add: createTables_def resolve_order_ABC create_batches_concat sample_tables
        del: create_batch.simps)
next
  show "createTables env self me tables_XY force w
        = (Inl (S_ERROR EMYSQL ''Recursive Foreign Keys in X, Y''), w)"
    by (simp add: createTables_def resolve_order_XY sample_tables)
qed

theorem creation_order_by_rounds_witness:
  "distinct (map fst tables_ABC) \<and> tables_ABC \<noteq> [] \<and> missing_fields tables_ABC = None
   \<and> resolve_order tables_ABC = Inr ([[], [''A''], [''B''], [''C'']], [])
   \<and> [''A''] = filter (ready tables_ABC []) (not_yet tables_ABC [])
   \<and> [''B''] = filter (ready tables_ABC [''A'']) (not_yet tables_ABC [''A''])
   \<and> [''C''] = filter (ready tables_ABC [''A'', ''B'']) (not_yet tables_ABC [''A'', ''B''])
   \<and> distinct (map fst tables_XY) \<and> tables_XY \<noteq> [] \<and> missing_fields tables_XY = None
   \<and> resolve_order tables_XY = Inr ([[], []], [''X'', ''Y''])
   \<and> [''X'', ''Y''] = not_yet tables_XY []
   \<and> \<not> ready tables_XY [] ''X'' \<and> \<not> ready tables_XY [] ''Y''
   \<and> createTables env_ok db0 1 tables_XY False w0
        = (Inl (S_ERROR EMYSQL ''Recursive Foreign Keys in X, Y''), w0)"
proof -
  note d = sample_tables
  note abc = creation_order_by_rounds [where td = tables_ABC and batches = "[[], [''A''], [''B''], [''C'']]"
      and remaining = "[]"]
  note xy = creation_order_by_rounds [where td = tables_XY and batches = "[[], []]"
      and remaining = "[''X'', ''Y'']" and env = env_ok and self = db0 and me = 1 and force = False
      and w = w0]
  have all: "\<forall>k. Suc k < length [[], [''A''], [''B''], [''C'']] \<longrightarrow>
            [[], [''A''], [''B''], [''C'']] ! Suc k
              = filter (ready tables_ABC (concat (take (Suc k) [[], [''A''], [''B''], [''C'']])))
                  (not_yet tables_ABC (concat (take (Suc k) [[], [''A''], [''B''], [''C'']])))"
    using abc d resolve_order_ABC by blast
  have b1: "[''A''] = filter (ready tables_ABC []) (not_yet tables_ABC [])"
    using all [rule_format, of 0] by simp
  have b2: "[''B''] = filter (ready tables_ABC [''A'']) (not_yet tables_ABC [''A''])"
    using all [rule_format, of 1] by simp
  have b3: "[''C''] = filter (ready tables_ABC [''A'', ''B'']) (not_yet tables_ABC [''A'', ''B''])"
    using all [rule_format, of 2] by (simp add: numeral_2_eq_2)
  have x1: "[''X'', ''Y''] = not_yet tables_XY []"
    and x2: "\<not> ready tables_XY [] ''X''" "\<not> ready tables_XY [] ''Y''"
    and x3: "createTables env_ok db0 1 tables_XY False w0
        = (Inl (S_ERROR EMYSQL ''Recursive Foreign Keys in X, Y''), w0)"
    using xy d resolve_order_XY by auto
  show ?thesis using d resolve_order_ABC resolve_order_XY b1 b2 b3 x1 x2 x3 by simp
qed

section \<open>Proofs: the existence check of tables\<close>

text \<open>No operation removes events from the trace.\<close>

lemma pool_execute_grows: "suffix (trace w) (trace (snd (pool_execute env c cmd w)))"
  by (simp add: pool_execute_def Let_def suffix_ConsI split: sum.splits option.splits)

lemma pool_newConn_grows: "suffix (trace w) (trace (snd (pool_newConn env w)))"
proof -
  have "suffix (trace w) (trace (snd (pool_execute env c cmd (log_event (Connect c) w))))" for c cmd
    using pool_execute_grows [of "log_event (Connect c) w" env c cmd] by (auto dest: suffix_ConsD)
  then show ?thesis
    by (simp add: pool_newConn_def Let_def suffix_ConsI split: option.splits sum.splits prod.splits)
      (metis snd_conv)
qed

lemma pool_innerGet_grows: "suffix (trace w) (trace (snd (pool_innerGet env me w)))"
proof -
  obtain r wa where e: "pool_newConn env w = (r, wa)" by (cases "pool_newConn env w")
  have "suffix (trace w) (trace wa)" using pool_newConn_grows [of w env] by (simp add: e)
  then show ?thesis
    by (simp add: pool_innerGet_def Let_def e split: option.splits sum.splits prod.splits)
qed

lemma pool_pop_grows: "suffix (trace w) (trace (pool_pop t w))"
  by (simp add: pool_pop_def Let_def suffix_ConsI split: option.splits)

lemma clean_loop_grows: "suffix (trace w) (trace (clean_loop env now ts w))"
proof (induction ts arbitrary: w)
  case Nil
  show ?case by simp
next
  case (Cons t ts)
  define wa where "wa = (if \<not> isAlive env (trace w) t then pool_pop t w else w)"
  have a: "suffix (trace w) (trace wa)" by (simp add: wa_def pool_pop_grows)
  have b: "suffix (trace wa) (trace (pool_pop t wa))" by (rule pool_pop_grows)
  show ?case
    using a b Cons.IH [of wa] Cons.IH [of "pool_pop t wa"]
    by (auto simp: Let_def wa_def [symmetric] split: option.splits
        intro: suffix_order.trans)
qed

lemma pool_clean_grows: "suffix (trace w) (trace (pool_clean env now w))"
  using clean_loop_grows [of "w\<lparr>lastClean := x\<rparr>" for x]
  by (simp add: pool_clean_def Let_def)

lemma retry_step_grows: "suffix (trace w) (trace (snd (retry_step env db tot lft me w)))"
proof -
  define wa where "wa = (if 5 * (tot - lft) > 0 then log_event (Sleep (5 * (tot - lft))) (log_event (Attempt tot lft) w) else log_event (Attempt tot lft) w)"
  have a: "suffix (trace w) (trace wa)" by (simp add: wa_def suffix_ConsI)
  obtain r wb where ig: "pool_innerGet env me wa = (r, wb)" by (cases "pool_innerGet env me wa")
  have b: "suffix (trace w) (trace wb)"
    using pool_innerGet_grows [of wa env me] a by (simp add: ig)
  show ?thesis
    unfolding retry_step_def Let_def wa_def [symmetric] ig using b
    by (simp add: pool_ping_def pool_select_db_def suffix_ConsI
        split: sum.split prod.split option.split bool.split)
qed

lemma pool_getWithRetry_grows:
  "suffix (trace w) (trace (snd (pool_getWithRetry env depth db tot lft me w)))"
proof (induction depth arbitrary: lft w)
  case 0
  show ?case by (simp add: pool_getWithRetry.simps)
next
  case (Suc depth)
  obtain r wa where st: "retry_step env db tot lft me w = (r, wa)"
    by (cases "retry_step env db tot lft me w")
  have a: "suffix (trace w) (trace wa)" using retry_step_grows [of w env db tot lft me] by (simp add: st)
  show ?case
  proof (cases r)
    case (Inl res)
    then show ?thesis using a by (simp add: pool_getWithRetry_Suc st)
  next
    case (Inr lft1)
    then show ?thesis using a Suc.IH [of wa lft1]
      by (simp add: pool_getWithRetry_Suc st)
  qed
qed

lemma getConnection_grows: "suffix (trace w) (trace (snd (getConnection env self me w)))"
  using pool_clean_grows [of w env None]
    pool_getWithRetry_grows [of "pool_clean env None w" env]
  by (auto simp: getConnection_def pool_get_def Let_def intro: suffix_order.trans)

lemma query_trace:
  "query env self me cmd w = (Inr rows, wa) \<Longrightarrow> \<exists>c evs. trace wa = Execute c cmd # evs @ trace w"
proof -
  assume q: "query env self me cmd w = (Inr rows, wa)"
  obtain r wg where g: "getConnection env self me w = (r, wg)" by (cases "getConnection env self me w")
  obtain evs where e: "trace wg = evs @ trace w"
    using getConnection_grows [of w env self me] by (auto simp: g suffix_def)
  show ?thesis using q e by (auto simp: query_def g split: sum.splits)
qed

lemma update_trace:
  "update env self me cmd w = (Inr r, wa) \<Longrightarrow> \<exists>c evs. trace wa = Execute c cmd # evs @ trace w"
proof -
  assume q: "update env self me cmd w = (Inr r, wa)"
  obtain r wg where g: "getConnection env self me w = (r, wg)" by (cases "getConnection env self me w")
  obtain evs where e: "trace wg = evs @ trace w"
    using getConnection_grows [of w env self me] by (auto simp: g suffix_def)
  show ?thesis using q e by (auto simp: update_def g split: sum.splits)
qed

lemma quoted_table: "nonempty (quotedList (Some [Sc (PStr table)])) = Some (''`'' @ replace ''`'' [] table @ ''`'')"
  by (simp add: quotedList_def)

text \<open>
  Claim C8. Let \<open>SHOW TABLES\<close> succeed and list the table. Without \<open>force\<close> the existence
  check, the creation of the table and the loop over the tables all return the error
  \<open>The requested table already exist\<close>, and nothing is sent after \<open>SHOW TABLES\<close>. With
  \<open>force\<close> the check sends \<open>DROP TABLE\<close> for the quoted name; when that succeeds the
  \<open>CREATE TABLE\<close> statement of the table follows, and the trace shows \<open>SHOW TABLES\<close>,
  \<open>DROP TABLE\<close> and \<open>CREATE TABLE\<close> in this order; when the drop fails its error is
  returned and nothing is created.
\<close>

theorem existing_table_fails_or_is_dropped_and_recreated:
  assumes "query env self me ''SHOW TABLES'' w = (Inr rows, wa)"
    and "[PStr table] \<in> set rows"
  shows "checkTable env self me table False w
           = (Inl (S_ERROR EMYSQL ''The requested table already exist''), wa)
       \<and> create_table env self me td False table w
           = (Inl (S_ERROR EMYSQL ''The requested table already exist''), wa)
       \<and> create_batch env self me td False (table # rest) w
           = (Inl (S_ERROR EMYSQL ''The requested table already exist''), wa)
       \<and> (\<exists>c evs. trace wa = Execute c ''SHOW TABLES'' # evs @ trace w)
       \<and> (update env self me (''DROP TABLE '' @ ''`'' @ replace ''`'' [] table @ ''`'') wa = (Inl e, wb)
            \<longrightarrow> create_table env self me td True table w = (Inl e, wb))
       \<and> (update env self me (''DROP TABLE '' @ ''`'' @ replace ''`'' [] table @ ''`'') wa = (Inr r, wb)
            \<and> map_of td table = Some d
            \<and> update env self me (create_cmd table d) wb = (Inr r2, wc)
            \<longrightarrow> create_table env self me td True table w = (Inr (), wc)
              \<and> (\<exists>c1 c2 evs1 evs2.
                    trace wc = Execute c2 (create_cmd table d) # evs2
                      @ Execute c1 (''DROP TABLE '' @ ''`'' @ replace ''`'' [] table @ ''`'') # evs1
                      @ trace wa))"
proof (intro conjI impI)
  show ct: "checkTable env self me table False w
           = (Inl (S_ERROR EMYSQL ''The requested table already exist''), wa)"
    using assms by (simp add: checkTable_def quoted_table del: nonempty.simps)
  show c1: "create_table env self me td False table w
           = (Inl (S_ERROR EMYSQL ''The requested table already exist''), wa)"
    by (simp add: create_table_def ct)
  show "create_batch env self me td False (table # rest) w
           = (Inl (S_ERROR EMYSQL ''The requested table already exist''), wa)"
    by (simp add: c1)
  show "\<exists>c evs. trace wa = Execute c ''SHOW TABLES'' # evs @ trace w"
    using query_trace [OF assms(1)] .
next
  assume "update env self me (''DROP TABLE '' @ ''`'' @ replace ''`'' [] table @ ''`'') wa = (Inl e, wb)"
  then show "create_table env self me td True table w = (Inl e, wb)"
    using assms by (simp add: create_table_def checkTable_def quoted_table del: nonempty.simps)
next
  assume a: "update env self me (''DROP TABLE '' @ ''`'' @ replace ''`'' [] table @ ''`'') wa = (Inr r, wb)
            \<and> map_of td table = Some d
            \<and> update env self me (create_cmd table d) wb = (Inr r2, wc)"
  then show "create_table env self me td True table w = (Inr (), wc)"
    using assms by (simp add: create_table_def checkTable_def quoted_table del: nonempty.simps)
  obtain k1 evs1 where t1: "trace wb = Execute k1 (''DROP TABLE '' @ ''`'' @ replace ''`'' [] table @ ''`'') # evs1 @ trace wa"
    using update_trace a by blast
  obtain k2 evs2 where t2: "trace wc = Execute k2 (create_cmd table d) # evs2 @ trace wb"
    using update_trace a by blast
  show "\<exists>c1 c2 evs1 evs2.
                    trace wc = Execute c2 (create_cmd table d) # evs2
                      @ Execute c1 (''DROP TABLE '' @ ''`'' @ replace ''`'' [] table @ ''`'') # evs1
                      @ trace wa"
    using t1 t2 by auto
qed


lemmas eval_tables = eval_ok env_has_A_def query_def update_def checkTable_def create_table_def
  create_cmd_def tables_ABC_def tbl_def quotedList_def

theorem existing_table_fails_or_is_dropped_and_recreated_witness:
  "fst (query env_has_A db0 1 ''SHOW TABLES'' w0) = Inr [[PStr ''A'']]
   \<and> [PStr ''A''] \<in> set [[PStr ''A'']]
   \<and> fst (create_table env_has_A db0 1 tables_ABC False ''A'' w0)
       = Inl (S_ERROR EMYSQL ''The requested table already exist'')
   \<and> statements (trace (snd (create_table env_has_A db0 1 tables_ABC False ''A'' w0)))
       = [''SET AUTOCOMMIT=1'', ''SHOW TABLES'']
   \<and> fst (create_table env_has_A db0 1 tables_ABC True ''A'' w0) = Inr ()
   \<and> statements (trace (snd (create_table env_has_A db0 1 tables_ABC True ''A'' w0)))
       = [''SET AUTOCOMMIT=1'', ''SHOW TABLES'', ''DROP TABLE `A`'',
          create_cmd ''A'' (tbl [(''id'', ''INTEGER'')] None)]"
proof -
  define wa where "wa = snd (query env_has_A db0 1 ''SHOW TABLES'' w0)"
  define wb where "wb = snd (update env_has_A db0 1 ''DROP TABLE `A`'' wa)"
  define wc where "wc = snd (update env_has_A db0 1 (create_cmd ''A'' (tbl [(''id'', ''INTEGER'')] None)) wb)"
  have fq: "fst (query env_has_A db0 1 ''SHOW TABLES'' w0) = Inr [[PStr ''A'']]"
    by (simp add: eval_tables)
  have q: "query env_has_A db0 1 ''SHOW TABLES'' w0 = (Inr [[PStr ''A'']], wa)"
    using fq by (simp add: wa_def prod_eq_iff)
  have fd: "fst (update env_has_A db0 1 ''DROP TABLE `A`'' wa) = Inr (0, None)"
    by (simp add: wa_def eval_tables)
  have d: "update env_has_A db0 1 (''DROP TABLE '' @ ''`'' @ replace ''`'' [] ''A'' @ ''`'') wa = (Inr (0, None), wb)"
    using fd by (simp add: wb_def prod_eq_iff)
  have fc: "fst (update env_has_A db0 1 (create_cmd ''A'' (tbl [(''id'', ''INTEGER'')] None)) wb) = Inr (0, None)"
    by (simp add: wb_def wa_def eval_tables)
  have c: "update env_has_A db0 1 (create_cmd ''A'' (tbl [(''id'', ''INTEGER'')] None)) wb = (Inr (0, None), wc)"
    using fc by (simp add: wc_def prod_eq_iff)
  have m: "map_of tables_ABC ''A'' = Some (tbl [(''id'', ''INTEGER'')] None)"
    by (simp add: tables_ABC_def)
  have mem: "[PStr ''A''] \<in> set [[PStr ''A'']]" by simp
  note t = existing_table_fails_or_is_dropped_and_recreated [OF q mem, where td = tables_ABC
      and r = "(0, None)" and wb = wb and d = "tbl [(''id'', ''INTEGER'')] None" and wc = wc
      and ?r2.0 = "(0, None)"]
  have no: "create_table env_has_A db0 1 tables_ABC False ''A'' w0
       = (Inl (S_ERROR EMYSQL ''The requested table already exist''), wa)"
    using t by simp
  have yes: "create_table env_has_A db0 1 tables_ABC True ''A'' w0 = (Inr (), wc)"
    using t d m c by simp
  have sa: "statements (trace wa) = [''SET AUTOCOMMIT=1'', ''SHOW TABLES'']"
    by (simp add: wa_def eval_tables)
  have sc: "statements (trace wc) = [''SET AUTOCOMMIT=1'', ''SHOW TABLES'', ''DROP TABLE `A`'',
          create_cmd ''A'' (tbl [(''id'', ''INTEGER'')] None)]"
    by (simp add: wc_def wb_def wa_def eval_tables)
  show ?thesis using fq no yes sa sc by simp
qed

end
